theory Spec2Isabelle
  imports Complex_Main "HOL-Library.Word"
begin

section \<open>The PDFium addon: registry, page cache and deferred regeneration\<close>

text \<open>
  The addon keeps two global tables (\<^verbatim>\<open>g_documents\<close>, \<^verbatim>\<open>g_pageCache\<close>) and calls the
  PDFium library through opaque pointers. The embedding passes the global variables
  explicitly as a record, and keeps PDFium as a parameter: a record of functions that
  answer each library call from the history of the calls made so far. Every call that
  changes library state is appended to that history, so that what the addon asked of
  the library, and in which order, can be read off the final state.
\<close>

subsection \<open>Pointers, bytes and strings\<close>

text \<open>Opaque library pointers; \<open>0\<close> is \<^verbatim>\<open>nullptr\<close>.\<close>

type_synonym FPDF_DOCUMENT = nat
type_synonym FPDF_PAGE = nat
type_synonym FPDF_PAGEOBJECT = nat
type_synonym FPDF_TEXTPAGE = nat
type_synonym FPDF_BITMAP = nat

type_synonym byte = "8 word"
type_synonym u16string = "16 word list"

text \<open>\<^verbatim>\<open>std::to_string(int)\<close>: decimal digits, with a minus sign below zero.\<close>

fun to_digits :: "nat \<Rightarrow> string" where
  "to_digits n =
     (if n < 10 then [''0123456789'' ! n]
      else to_digits (n div 10) @ [''0123456789'' ! (n mod 10)])"

declare to_digits.simps [simp del]

definition to_string :: "int \<Rightarrow> string" where
  "to_string i = (if i < 0 then CHR ''-'' # to_digits (nat (- i)) else to_digits (nat i))"

subsection \<open>\<^verbatim>\<open>std::map<int, V>\<close>\<close>

text \<open>
  An ordered map with integer keys, as the list of its entries in ascending key order,
  which is the order a range-for loop visits them in. \<open>map_find\<close> is \<^verbatim>\<open>find\<close>
  (\<open>None\<close> for \<^verbatim>\<open>end()\<close>), \<open>map_assign\<close> is \<^verbatim>\<open>m[k] = v\<close>, \<open>map_erase\<close> is
  \<^verbatim>\<open>erase\<close> of the entry found.
\<close>

type_synonym 'v std_map = "(int \<times> 'v) list"

fun map_find :: "int \<Rightarrow> 'v std_map \<Rightarrow> 'v option" where
  "map_find k [] = None"
| "map_find k ((k', v) # m) = (if k = k' then Some v else map_find k m)"

fun map_assign :: "int \<Rightarrow> 'v \<Rightarrow> 'v std_map \<Rightarrow> 'v std_map" where
  "map_assign k v [] = [(k, v)]"
| "map_assign k v ((k', v') # m) =
     (if k < k' then (k, v) # (k', v') # m
      else if k = k' then (k, v) # m
      else (k', v') # map_assign k v m)"

fun map_erase :: "int \<Rightarrow> 'v std_map \<Rightarrow> 'v std_map" where
  "map_erase k [] = []"
| "map_erase k ((k', v) # m) = (if k = k' then map_erase k m else (k', v) # map_erase k m)"

subsection \<open>JavaScript exceptions and values\<close>

text \<open>
  \<^verbatim>\<open>Napi::Error\<close>, \<^verbatim>\<open>Napi::TypeError\<close> and \<^verbatim>\<open>Napi::RangeError\<close> with their messages.
  The addon is built without C++ exceptions: \<^verbatim>\<open>ThrowAsJavaScriptException\<close> leaves the
  exception pending and the function returns; the model returns \<open>Inl\<close> of it.
\<close>

datatype js_error = JsError string | JsTypeError string | JsRangeError string

text \<open>
  The JavaScript values the exported functions are called with and hand back. \<open>'d\<close> is
  the type of doubles; a string is its UTF-16 code units.
\<close>

datatype 'd js_value =
    Undefined
  | Number 'd
  | String u16string
  | Buffer "byte list"
  | Array "'d js_value list"
  | Object "(string \<times> 'd js_value) list"

fun IsNumber :: "'d js_value \<Rightarrow> bool" where
  "IsNumber (Number x) = True"
| "IsNumber v = False"

fun IsString :: "'d js_value \<Rightarrow> bool" where
  "IsString (String x) = True"
| "IsString v = False"

fun IsBuffer :: "'d js_value \<Rightarrow> bool" where
  "IsBuffer (Buffer x) = True"
| "IsBuffer v = False"

text \<open>
  \<^verbatim>\<open>info[k]\<close> of a \<^verbatim>\<open>Napi::CallbackInfo\<close>: the argument, or \<^verbatim>\<open>undefined\<close> past the last
  one.
\<close>

definition arg :: "'d js_value list \<Rightarrow> nat \<Rightarrow> 'd js_value" where
  "arg info k = (if k < length info then info ! k else Undefined)"

text \<open>
  The payload of a value whose type has been checked (\<^verbatim>\<open>As<Napi::Buffer<uint8_t>>()\<close>,
  \<^verbatim>\<open>As<Napi::String>().Utf16Value()\<close>); the second equations are never reached.
\<close>

fun buffer_data :: "'d js_value \<Rightarrow> byte list" where
  "buffer_data (Buffer bs) = bs"
| "buffer_data v = []"

fun Utf16Value :: "'d js_value \<Rightarrow> u16string" where
  "Utf16Value (String us) = us"
| "Utf16Value v = []"

text \<open>
  \<^verbatim>\<open>c_str()\<close> of a \<^verbatim>\<open>std::u16string\<close> handed to the library as a NUL-terminated string:
  the library reads the code units before the first NUL.
\<close>

definition c_str :: "u16string \<Rightarrow> u16string" where
  "c_str us = takeWhile (\<lambda>u. u \<noteq> 0) us"

text \<open>
  \<^verbatim>\<open>Napi::String::New\<close> on one of the addon's string literals, which are ASCII: each
  character is one code unit.
\<close>

definition String_New :: "string \<Rightarrow> 'd js_value" where
  "String_New s = String (map (\<lambda>c. of_nat (of_char c)) s)"

subsection \<open>\<^verbatim>\<open>float\<close> and \<^verbatim>\<open>double\<close>\<close>

text \<open>
  A \<^verbatim>\<open>float\<close> and a \<^verbatim>\<open>double\<close> are their 32 and 64 bits in the IEEE 754 formats binary32 and
  binary64: one sign bit, \<open>w\<close> exponent bits and \<open>t\<close> fraction bits. \<open>Finite s m e\<close> is the
  number \<open>m * 2 ^ e\<close>, negated when \<open>s\<close> is set; a number with exponent field zero is
  subnormal, and the largest exponent field holds the infinities and the NaNs.
\<close>

type_synonym float = "32 word"
type_synonym double = "64 word"

datatype fp = Finite bool nat int | Infinite bool | NaN

definition fp_decode :: "nat \<Rightarrow> nat \<Rightarrow> nat \<Rightarrow> fp" where
  "fp_decode w t n =
     (let s = ((n div 2 ^ (w + t)) mod 2 = 1);
          e = (n div 2 ^ t) mod 2 ^ w;
          f = n mod 2 ^ t;
          bias = 2 ^ (w - 1) - 1
      in if e = 2 ^ w - 1 then (if f = 0 then Infinite s else NaN)
         else if e = 0 then Finite s f (1 - int bias - int t)
         else Finite s (2 ^ t + f) (int e - int bias - int t))"

definition float_decode :: "float \<Rightarrow> fp" where
  "float_decode x = fp_decode 8 23 (unat x)"

definition double_decode :: "double \<Rightarrow> fp" where
  "double_decode x = fp_decode 11 52 (unat x)"

text \<open>The \<^verbatim>\<open>double\<close> with sign \<open>s\<close>, exponent field \<open>e\<close> and fraction \<open>f\<close>; a quiet NaN.\<close>

definition double_pack :: "bool \<Rightarrow> nat \<Rightarrow> nat \<Rightarrow> double" where
  "double_pack s e f = word_of_nat ((if s then 2 ^ 63 else 0) + e * 2 ^ 52 + f)"

definition double_nan :: double where
  "double_nan = double_pack False 2047 (2 ^ 51)"

text \<open>The number of binary digits of a natural number.\<close>

fun bitlen :: "nat \<Rightarrow> nat" where
  "bitlen n = (if n = 0 then 0 else 1 + bitlen (n div 2))"

declare bitlen.simps [simp del]

text \<open>
  Rounding to the nearest \<^verbatim>\<open>double\<close>, ties to the even significand, which is how the
  arithmetic of a \<^verbatim>\<open>double\<close> rounds unless the rounding mode is changed, and the addon does
  not change it. \<open>double_round s m e\<close> is the \<^verbatim>\<open>double\<close> nearest to \<open>m * 2 ^ e\<close> with sign
  \<open>s\<close>: \<open>q\<close> is the exponent of the last digit kept, which leaves 53 digits, or fewer in
  the subnormal range; \<open>M\<close> is the significand after rounding; a number too large for the
  largest exponent becomes an infinity.
\<close>

definition double_round :: "bool \<Rightarrow> nat \<Rightarrow> int \<Rightarrow> double" where
  "double_round s m e =
     (let q = max (e + int (bitlen m) - 53) (- 1074);
          d = nat (q - e);
          t = m div 2 ^ d;
          r = m mod 2 ^ d;
          M = (if q \<le> e then m * 2 ^ nat (e - q)
               else if 2 ^ d < 2 * r \<or> (2 * r = 2 ^ d \<and> odd t) then t + 1 else t);
          M' = (if M = 2 ^ 53 then 2 ^ 52 else M);
          q' = (if M = 2 ^ 53 then q + 1 else q)
      in if M' < 2 ^ 52 then double_pack s 0 M'
         else if 2047 \<le> q' + 1075 then double_pack s 2047 0
         else double_pack s (nat (q' + 1075)) (M' - 2 ^ 52))"

text \<open>
  \<^verbatim>\<open>a * b\<close>, \<^verbatim>\<open>a + b\<close> and \<^verbatim>\<open>a <= b\<close> on \<^verbatim>\<open>double\<close>: the exact product or sum, rounded once.
  Zero times an infinity and the sum of opposite infinities are NaN; a sum that is
  exactly zero is negative only when both terms are; no comparison with a NaN holds.
\<close>

definition fp_signed :: "bool \<Rightarrow> nat \<Rightarrow> int" where
  "fp_signed s m = (if s then - int m else int m)"

fun fp_mul :: "fp \<Rightarrow> fp \<Rightarrow> double" where
  "fp_mul (Finite s m e) (Finite t n f) = double_round (s \<noteq> t) (m * n) (e + f)"
| "fp_mul (Finite s m e) (Infinite t) =
     (if m = 0 then double_nan else double_pack (s \<noteq> t) 2047 0)"
| "fp_mul (Infinite s) (Finite t n f) =
     (if n = 0 then double_nan else double_pack (s \<noteq> t) 2047 0)"
| "fp_mul (Infinite s) (Infinite t) = double_pack (s \<noteq> t) 2047 0"
| "fp_mul a b = double_nan"

definition double_mul :: "double \<Rightarrow> double \<Rightarrow> double" where
  "double_mul a b = fp_mul (double_decode a) (double_decode b)"

fun fp_add :: "fp \<Rightarrow> fp \<Rightarrow> double" where
  "fp_add (Finite s m e) (Finite t n f) =
     (let q = min e f;
          x = fp_signed s m * 2 ^ nat (e - q) + fp_signed t n * 2 ^ nat (f - q)
      in if x = 0 then double_pack (s \<and> t) 0 0
         else double_round (x < 0) (nat \<bar>x\<bar>) q)"
| "fp_add (Finite s m e) (Infinite t) = double_pack t 2047 0"
| "fp_add (Infinite s) (Finite t n f) = double_pack s 2047 0"
| "fp_add (Infinite s) (Infinite t) = (if s = t then double_pack s 2047 0 else double_nan)"
| "fp_add a b = double_nan"

definition double_add :: "double \<Rightarrow> double \<Rightarrow> double" where
  "double_add a b = fp_add (double_decode a) (double_decode b)"

fun fp_le :: "fp \<Rightarrow> fp \<Rightarrow> bool" where
  "fp_le (Finite s m e) (Finite t n f) =
     (fp_signed s m * 2 ^ nat (e - min e f) \<le> fp_signed t n * 2 ^ nat (f - min e f))"
| "fp_le (Finite s m e) (Infinite t) = (\<not> t)"
| "fp_le (Infinite s) (Finite t n f) = s"
| "fp_le (Infinite s) (Infinite t) = (s \<or> \<not> t)"
| "fp_le a b = False"

definition double_le :: "double \<Rightarrow> double \<Rightarrow> bool" where
  "double_le a b = fp_le (double_decode a) (double_decode b)"

text \<open>The literals \<^verbatim>\<open>0.0\<close> and \<^verbatim>\<open>0.5\<close>.\<close>

definition double_zero :: double where
  "double_zero = double_pack False 0 0"

definition double_half :: double where
  "double_half = double_pack False 1022 0"

text \<open>
  The conversion of a \<^verbatim>\<open>float\<close> to \<^verbatim>\<open>double\<close>, as in the initialisation of a \<^verbatim>\<open>double\<close>
  variable from a \<^verbatim>\<open>float\<close> result. Every \<^verbatim>\<open>float\<close> is a \<^verbatim>\<open>double\<close>, so nothing is rounded off.
\<close>

definition double_of_float :: "float \<Rightarrow> double" where
  "double_of_float x =
     (case float_decode x of
        Finite s m e \<Rightarrow> double_round s m e
      | Infinite s \<Rightarrow> double_pack s 2047 0
      | NaN \<Rightarrow> double_nan)"

text \<open>
  \<^verbatim>\<open>static_cast<int>\<close> of a \<^verbatim>\<open>double\<close> drops the fraction. C++ leaves the conversion
  undefined when the result is not an \<^verbatim>\<open>int\<close>, and for infinities and NaN; the model gives
  \<^verbatim>\<open>INT_MIN\<close> there, which is what the conversion instruction of x86-64 delivers.
\<close>

definition INT_MIN :: int where
  "INT_MIN = - (2 ^ 31)"

fun fp_to_int :: "fp \<Rightarrow> int" where
  "fp_to_int (Finite s m e) =
     (let v = fp_signed s (if 0 \<le> e then m * 2 ^ nat e else m div 2 ^ nat (- e))
      in if - (2 ^ 31) \<le> v \<and> v < 2 ^ 31 then v else INT_MIN)"
| "fp_to_int a = INT_MIN"

definition double_to_int :: "double \<Rightarrow> int" where
  "double_to_int x = fp_to_int (double_decode x)"

subsection \<open>The PDFium library\<close>

text \<open>
  One event per library call that changes library state, with its arguments and, where
  the addon looks at it, its result.
\<close>

datatype event =
    EvInitLibrary
  | EvDestroyLibrary
  | EvLoadMemDocument "byte list" "string option" FPDF_DOCUMENT
  | EvCloseDocument FPDF_DOCUMENT
  | EvLoadPage FPDF_DOCUMENT int FPDF_PAGE
  | EvClosePage FPDF_PAGE
  | EvGenerateContent FPDF_PAGE bool
  | EvSaveAsCopy FPDF_DOCUMENT bool
  | EvTextLoadPage FPDF_PAGE FPDF_TEXTPAGE
  | EvTextClosePage FPDF_TEXTPAGE
  | EvSetText FPDF_PAGE FPDF_PAGEOBJECT u16string bool
  | EvLoadJpegFileInline FPDF_PAGE FPDF_PAGEOBJECT bool
  | EvBitmapCreateEx int int int FPDF_BITMAP
  | EvSetBitmap FPDF_PAGE FPDF_PAGEOBJECT FPDF_BITMAP bool
  | EvBitmapCreate int int FPDF_BITMAP
  | EvBitmapFillRect FPDF_BITMAP int int int int nat
  | EvRenderPageBitmap FPDF_BITMAP FPDF_PAGE int int int int int int
  | EvBitmapDestroy FPDF_BITMAP

text \<open>
  The library: each function answers from the history of events. The fields after the
  library's are the conversions of N-API, which the embedding does not interpret: from a
  JavaScript number, of type \<open>'d\<close>, to \<^verbatim>\<open>int\<close> (\<open>Int32Value\<close>) and to \<^verbatim>\<open>double\<close>
  (\<open>DoubleValue\<close>), from \<^verbatim>\<open>int\<close> to a JavaScript number (\<open>double_of_int\<close> for
  \<^verbatim>\<open>Napi::Number::New\<close> on an \<^verbatim>\<open>int\<close>), and from a JavaScript string to UTF-8
  (\<open>Utf8Value\<close>).
\<close>

record 'd pdfium =
  FPDF_LoadMemDocument :: "event list \<Rightarrow> byte list \<Rightarrow> int \<Rightarrow> string option \<Rightarrow> FPDF_DOCUMENT"
  FPDF_GetLastError :: "event list \<Rightarrow> nat"
  FPDF_GetPageCount :: "event list \<Rightarrow> FPDF_DOCUMENT \<Rightarrow> int"
  FPDF_LoadPage :: "event list \<Rightarrow> FPDF_DOCUMENT \<Rightarrow> int \<Rightarrow> FPDF_PAGE"
  FPDFPage_GenerateContent :: "event list \<Rightarrow> FPDF_PAGE \<Rightarrow> bool"
  FPDF_SaveAsCopy :: "event list \<Rightarrow> FPDF_DOCUMENT \<Rightarrow> bool \<times> byte list list"
  FPDFPage_CountObjects :: "event list \<Rightarrow> FPDF_PAGE \<Rightarrow> int"
  FPDFPage_GetObject :: "event list \<Rightarrow> FPDF_PAGE \<Rightarrow> int \<Rightarrow> FPDF_PAGEOBJECT"
  FPDFPageObj_GetType :: "event list \<Rightarrow> FPDF_PAGEOBJECT \<Rightarrow> int"
  FPDFPageObj_GetBounds :: "event list \<Rightarrow> FPDF_PAGEOBJECT \<Rightarrow> 'd \<times> 'd \<times> 'd \<times> 'd"
  FPDFText_LoadPage :: "event list \<Rightarrow> FPDF_PAGE \<Rightarrow> FPDF_TEXTPAGE"
  FPDFTextObj_GetText :: "event list \<Rightarrow> FPDF_PAGEOBJECT \<Rightarrow> FPDF_TEXTPAGE \<Rightarrow> nat \<times> u16string"
  FPDFText_SetText :: "event list \<Rightarrow> FPDF_PAGEOBJECT \<Rightarrow> u16string \<Rightarrow> bool"
  FPDFImageObj_LoadJpegFileInline ::
    "event list \<Rightarrow> FPDF_PAGE \<Rightarrow> FPDF_PAGEOBJECT \<Rightarrow> nat \<Rightarrow> (nat \<Rightarrow> nat \<Rightarrow> byte list option) \<Rightarrow> bool"
  FPDFBitmap_CreateEx :: "event list \<Rightarrow> int \<Rightarrow> int \<Rightarrow> byte list \<Rightarrow> int \<Rightarrow> FPDF_BITMAP"
  FPDFImageObj_SetBitmap :: "event list \<Rightarrow> FPDF_PAGE \<Rightarrow> FPDF_PAGEOBJECT \<Rightarrow> FPDF_BITMAP \<Rightarrow> bool"
  FPDF_GetPageWidthF :: "event list \<Rightarrow> FPDF_PAGE \<Rightarrow> float"
  FPDF_GetPageHeightF :: "event list \<Rightarrow> FPDF_PAGE \<Rightarrow> float"
  FPDFBitmap_Create :: "event list \<Rightarrow> int \<Rightarrow> int \<Rightarrow> FPDF_BITMAP"
  FPDFBitmap_GetBuffer :: "event list \<Rightarrow> FPDF_BITMAP \<Rightarrow> int \<Rightarrow> byte"
  FPDFBitmap_GetStride :: "event list \<Rightarrow> FPDF_BITMAP \<Rightarrow> int"
  Int32Value :: "'d \<Rightarrow> int"
  DoubleValue :: "'d \<Rightarrow> double"
  double_of_int :: "int \<Rightarrow> 'd"
  Utf8Value :: "u16string \<Rightarrow> string"

subsection \<open>Global state (\<^verbatim>\<open>common.h\<close>, \<^verbatim>\<open>addon.cc\<close>)\<close>

record CachedPage =
  page :: FPDF_PAGE
  dirty :: bool

record globals =
  g_documents :: "FPDF_DOCUMENT std_map"
  g_pageCache :: "CachedPage std_map std_map"
  g_nextHandle :: int
  g_initialized :: bool
  calls :: "event list"

definition initial :: globals where
  "initial = \<lparr>g_documents = [], g_pageCache = [], g_nextHandle = 1,
              g_initialized = False, calls = []\<rparr>"

definition library_call :: "event list \<Rightarrow> globals \<Rightarrow> globals" where
  "library_call evs s = s\<lparr>calls := calls s @ evs\<rparr>"

definition EnsurePdfiumInit :: "globals \<Rightarrow> globals" where
  "EnsurePdfiumInit s =
     (if g_initialized s then s
      else (library_call [EvInitLibrary] s)\<lparr>g_initialized := True\<rparr>)"

text \<open>
  \<^verbatim>\<open>RequireDocument\<close> returns the document pointer, or \<^verbatim>\<open>nullptr\<close> with an exception
  pending. Its callers return at once on \<^verbatim>\<open>nullptr\<close>, whatever is pending.
\<close>

definition RequireDocument :: "int \<Rightarrow> globals \<Rightarrow> js_error option \<times> FPDF_DOCUMENT" where
  "RequireDocument handle s =
     (case map_find handle (g_documents s) of
        None \<Rightarrow> (Some (JsError (''Invalid document handle: '' @ to_string handle)), 0)
      | Some doc \<Rightarrow> (None, doc))"

definition return_pending :: "js_error option \<Rightarrow> 'a \<Rightarrow> js_error + 'a" where
  "return_pending exc v = (case exc of Some e \<Rightarrow> Inl e | None \<Rightarrow> Inr v)"

definition AcquirePage ::
  "'d pdfium \<Rightarrow> int \<Rightarrow> FPDF_DOCUMENT \<Rightarrow> int \<Rightarrow> globals \<Rightarrow> FPDF_PAGE \<times> bool \<times> globals"
where
  "AcquirePage L handle doc pageIndex s =
     (case (case map_find handle (g_pageCache s) of
              None \<Rightarrow> None
            | Some pages \<Rightarrow> map_find pageIndex pages) of
        Some cp \<Rightarrow> (page cp, True, s)
      | None \<Rightarrow>
          (let pg = FPDF_LoadPage L (calls s) doc pageIndex
           in (pg, False, library_call [EvLoadPage doc pageIndex pg] s)))"

definition ReleasePage :: "int \<Rightarrow> int \<Rightarrow> FPDF_PAGE \<Rightarrow> bool \<Rightarrow> globals \<Rightarrow> globals" where
  "ReleasePage handle pageIndex pg fromCache s =
     (if \<not> fromCache then library_call [EvClosePage pg] s else s)"

definition CachePageDirty :: "int \<Rightarrow> int \<Rightarrow> FPDF_PAGE \<Rightarrow> globals \<Rightarrow> globals" where
  "CachePageDirty handle pageIndex pg s =
     (let pages = (case map_find handle (g_pageCache s) of None \<Rightarrow> [] | Some m \<Rightarrow> m)
      in s\<lparr>g_pageCache :=
             map_assign handle (map_assign pageIndex \<lparr>page = pg, dirty = True\<rparr> pages)
               (g_pageCache s)\<rparr>)"

text \<open>The loop of \<^verbatim>\<open>FlushAndCloseCachedPages\<close> over the pages of one document.\<close>

fun FlushAndCloseCachedPages_loop ::
  "'d pdfium \<Rightarrow> CachedPage std_map \<Rightarrow> bool \<Rightarrow> globals \<Rightarrow> bool \<times> globals"
where
  "FlushAndCloseCachedPages_loop L [] allOk s = (allOk, s)"
| "FlushAndCloseCachedPages_loop L ((idx, cp) # rest) allOk s =
     (if dirty cp then
        (let ok = FPDFPage_GenerateContent L (calls s) (page cp);
             s1 = library_call [EvGenerateContent (page cp) ok] s
         in FlushAndCloseCachedPages_loop L rest (if \<not> ok then False else allOk)
              (library_call [EvClosePage (page cp)] s1))
      else FlushAndCloseCachedPages_loop L rest allOk (library_call [EvClosePage (page cp)] s))"

definition FlushAndCloseCachedPages ::
  "'d pdfium \<Rightarrow> int \<Rightarrow> globals \<Rightarrow> bool \<times> globals"
where
  "FlushAndCloseCachedPages L handle s =
     (case map_find handle (g_pageCache s) of
        None \<Rightarrow> (True, s)
      | Some pages \<Rightarrow>
          (case FlushAndCloseCachedPages_loop L pages True s of
             (allOk, s1) \<Rightarrow> (allOk, s1\<lparr>g_pageCache := map_erase handle (g_pageCache s1)\<rparr>)))"

definition DiscardCachedPages :: "int \<Rightarrow> globals \<Rightarrow> globals" where
  "DiscardCachedPages handle s =
     (case map_find handle (g_pageCache s) of
        None \<Rightarrow> s
      | Some pages \<Rightarrow>
          (library_call (map (\<lambda>(idx, cp). EvClosePage (page cp)) pages) s)
            \<lparr>g_pageCache := map_erase handle (g_pageCache s)\<rparr>)"

definition Cleanup :: "globals \<Rightarrow> globals" where
  "Cleanup s =
     (let s1 = (library_call
                  (concat (map (\<lambda>(handle, pages). map (\<lambda>(idx, cp). EvClosePage (page cp)) pages)
                     (g_pageCache s))) s)\<lparr>g_pageCache := []\<rparr>;
          s2 = (library_call (map (\<lambda>(id, doc). EvCloseDocument doc) (g_documents s1)) s1)
                 \<lparr>g_documents := []\<rparr>
      in if g_initialized s2
         then (library_call [EvDestroyLibrary] s2)\<lparr>g_initialized := False\<rparr>
         else s2)"


subsection \<open>Document lifecycle (\<^verbatim>\<open>document.cc\<close>)\<close>

text \<open>
  Each exported function is embedded in two parts. The function of the source's name
  is its body from the point where the arguments have been read from the JavaScript
  call (a handle is an \<^verbatim>\<open>int\<close>, a buffer is its bytes); the function with the suffix
  \<open>_napi\<close>, further down, is its head, which checks the number and the types of the
  arguments and reads them. \<^verbatim>\<open>int\<close> values are modelled as integers; where the code
  narrows or multiplies, the two's complement wrap-around is written out with \<open>int32\<close>.
  The handle counter is not wrapped: opening that many documents is out of reach.
\<close>

definition int32 :: "int \<Rightarrow> int" where
  "int32 x = (x + 2 ^ 31) mod 2 ^ 32 - 2 ^ 31"

text \<open>The error codes of \<^verbatim>\<open>fpdfview.h\<close>, a header of the library.\<close>

definition FPDF_ERR_SUCCESS :: nat where "FPDF_ERR_SUCCESS = 0"
definition FPDF_ERR_UNKNOWN :: nat where "FPDF_ERR_UNKNOWN = 1"
definition FPDF_ERR_FILE :: nat where "FPDF_ERR_FILE = 2"
definition FPDF_ERR_FORMAT :: nat where "FPDF_ERR_FORMAT = 3"
definition FPDF_ERR_PASSWORD :: nat where "FPDF_ERR_PASSWORD = 4"
definition FPDF_ERR_SECURITY :: nat where "FPDF_ERR_SECURITY = 5"
definition FPDF_ERR_PAGE :: nat where "FPDF_ERR_PAGE = 6"

definition GetPdfiumErrorMessage :: "nat \<Rightarrow> string" where
  "GetPdfiumErrorMessage err =
     (if err = FPDF_ERR_SUCCESS then ''Success''
      else if err = FPDF_ERR_UNKNOWN then ''Unknown error''
      else if err = FPDF_ERR_FILE then ''File not found or could not be opened''
      else if err = FPDF_ERR_FORMAT then ''Invalid or corrupted PDF format''
      else if err = FPDF_ERR_PASSWORD then ''Password required or incorrect password''
      else if err = FPDF_ERR_SECURITY then ''Unsupported security scheme''
      else if err = FPDF_ERR_PAGE then ''Page not found or content error''
      else ''Unrecognised PDFium error'')"

definition OpenDocument ::
  "'d pdfium \<Rightarrow> byte list \<Rightarrow> string option \<Rightarrow> globals \<Rightarrow> (js_error + 'd js_value) \<times> globals"
where
  "OpenDocument L buffer password s =
     (let doc = FPDF_LoadMemDocument L (calls s) buffer (int32 (int (length buffer))) password;
          s1 = library_call [EvLoadMemDocument buffer password doc] s
      in if doc = 0 then
           (Inl (JsError (GetPdfiumErrorMessage (FPDF_GetLastError L (calls s1)))), s1)
         else
           (let handle = g_nextHandle s1
            in (Inr (Number (double_of_int L handle)),
                s1\<lparr>g_nextHandle := handle + 1,
                    g_documents := map_assign handle doc (g_documents s1)\<rparr>)))"

definition CloseDocument :: "int \<Rightarrow> globals \<Rightarrow> (js_error + unit) \<times> globals" where
  "CloseDocument handle s =
     (case map_find handle (g_documents s) of
        None \<Rightarrow> (Inl (JsError (''closeDocument: invalid handle '' @ to_string handle)), s)
      | Some doc \<Rightarrow>
          (let s1 = DiscardCachedPages handle s;
               s2 = library_call [EvCloseDocument doc] s1
           in (Inr (), s2\<lparr>g_documents := map_erase handle (g_documents s2)\<rparr>)))"

definition GetPageCount ::
  "'d pdfium \<Rightarrow> int \<Rightarrow> globals \<Rightarrow> (js_error + 'd js_value) \<times> globals"
where
  "GetPageCount L handle s =
     (case RequireDocument handle s of
        (exc, doc) \<Rightarrow>
          if doc = 0 then (return_pending exc Undefined, s)
          else (Inr (Number (double_of_int L (FPDF_GetPageCount L (calls s) doc))), s))"

text \<open>
  \<^verbatim>\<open>WriteBlockCallback\<close> appends one block to the writer's vector and reports success;
  the library calls it once per block it produces.
\<close>

definition WriteBlockCallback :: "byte list \<Rightarrow> byte list \<Rightarrow> byte list" where
  "WriteBlockCallback writer_data block = writer_data @ block"

definition SaveDocument ::
  "'d pdfium \<Rightarrow> int \<Rightarrow> globals \<Rightarrow> (js_error + 'd js_value) \<times> globals"
where
  "SaveDocument L handle s =
     (case RequireDocument handle s of
        (exc, doc) \<Rightarrow>
          if doc = 0 then (return_pending exc Undefined, s)
          else
            (case FlushAndCloseCachedPages L handle s of
               (flushed, s1) \<Rightarrow>
                 if \<not> flushed then
                   (Inl (JsError
                      ''saveDocument: FPDFPage_GenerateContent failed for a dirty page''), s1)
                 else
                   (case FPDF_SaveAsCopy L (calls s1) doc of
                      (ok, blocks) \<Rightarrow>
                        (let writer_data = foldl WriteBlockCallback [] blocks;
                             s2 = library_call [EvSaveAsCopy doc ok] s1
                         in if \<not> ok then
                              (Inl (JsError ''saveDocument: FPDF_SaveAsCopy failed''), s2)
                            else (Inr (Buffer writer_data), s2)))))"

subsection \<open>Page objects (\<^verbatim>\<open>objects.cc\<close>)\<close>

text \<open>The page object types of \<^verbatim>\<open>fpdf_edit.h\<close>, a header of the library.\<close>

definition FPDF_PAGEOBJ_TEXT :: int where "FPDF_PAGEOBJ_TEXT = 1"
definition FPDF_PAGEOBJ_PATH :: int where "FPDF_PAGEOBJ_PATH = 2"
definition FPDF_PAGEOBJ_IMAGE :: int where "FPDF_PAGEOBJ_IMAGE = 3"
definition FPDF_PAGEOBJ_SHADING :: int where "FPDF_PAGEOBJ_SHADING = 4"
definition FPDF_PAGEOBJ_FORM :: int where "FPDF_PAGEOBJ_FORM = 5"

definition GetObjectTypeName :: "int \<Rightarrow> string" where
  "GetObjectTypeName type =
     (if type = FPDF_PAGEOBJ_TEXT then ''text''
      else if type = FPDF_PAGEOBJ_PATH then ''path''
      else if type = FPDF_PAGEOBJ_IMAGE then ''image''
      else if type = FPDF_PAGEOBJ_SHADING then ''shading''
      else if type = FPDF_PAGEOBJ_FORM then ''form''
      else ''unknown'')"

text \<open>
  One entry of the array \<^verbatim>\<open>ListPageObjects\<close> builds. The library reports the byte
  length of the text and then fills a zeroed buffer of \<^verbatim>\<open>len / 2\<close> code units; one
  trailing NUL is dropped.
\<close>

definition ListPageObjects_entry ::
  "'d pdfium \<Rightarrow> event list \<Rightarrow> FPDF_PAGE \<Rightarrow> FPDF_TEXTPAGE \<Rightarrow> int \<Rightarrow> 'd js_value"
where
  "ListPageObjects_entry L h pg textPage i =
     (let obj = FPDFPage_GetObject L h pg i;
          type = FPDFPageObj_GetType L h obj
      in case FPDFPageObj_GetBounds L h obj of
           (left, bottom, right, top') \<Rightarrow>
             Object
               ([(''id'', Number (double_of_int L i)),
                 (''type'', String_New (GetObjectTypeName type)),
                 (''left'', Number left),
                 (''top'', Number top'),
                 (''right'', Number right),
                 (''bottom'', Number bottom)] @
                (if type = FPDF_PAGEOBJ_TEXT \<and> textPage \<noteq> 0 then
                   (case FPDFTextObj_GetText L h obj textPage of
                      (len, written) \<Rightarrow>
                        if len > 0 then
                          (let buf = take (len div 2) (written @ replicate (len div 2) 0);
                               charCount = (if length buf > 0 \<and> last buf = 0
                                            then length buf - 1 else length buf)
                           in [(''text'', String (take charCount buf))])
                        else [(''text'', String_New [])])
                 else [])))"

definition ListPageObjects ::
  "'d pdfium \<Rightarrow> int \<Rightarrow> int \<Rightarrow> globals \<Rightarrow> (js_error + 'd js_value) \<times> globals"
where
  "ListPageObjects L handle pageIndex s =
     (case RequireDocument handle s of
        (exc, doc) \<Rightarrow>
          if doc = 0 then (return_pending exc Undefined, s)
          else
            (case AcquirePage L handle doc pageIndex s of
               (pg, fromCache, s1) \<Rightarrow>
                 if pg = 0 then
                   (Inl (JsError (''listPageObjects: failed to load page '' @
                                  to_string pageIndex)), s1)
                 else
                   (let objCount = FPDFPage_CountObjects L (calls s1) pg;
                        textPage = FPDFText_LoadPage L (calls s1) pg;
                        s2 = library_call [EvTextLoadPage pg textPage] s1;
                        result = map (ListPageObjects_entry L (calls s2) pg textPage)
                                   [0..objCount - 1];
                        s3 = (if textPage \<noteq> 0
                              then library_call [EvTextClosePage textPage] s2 else s2)
                    in (Inr (Array result), ReleasePage handle pageIndex pg fromCache s3))))"

definition EditTextObject ::
  "'d pdfium \<Rightarrow> int \<Rightarrow> int \<Rightarrow> int \<Rightarrow> u16string \<Rightarrow> globals \<Rightarrow> (js_error + unit) \<times> globals"
where
  "EditTextObject L handle pageIndex objectId newText s =
     (case RequireDocument handle s of
        (exc, doc) \<Rightarrow>
          if doc = 0 then (return_pending exc (), s)
          else
            (case AcquirePage L handle doc pageIndex s of
               (pg, fromCache, s1) \<Rightarrow>
                 if pg = 0 then
                   (Inl (JsError (''editTextObject: failed to load page '' @
                                  to_string pageIndex)), s1)
                 else
                   (let objCount = FPDFPage_CountObjects L (calls s1) pg
                    in if objectId < 0 \<or> objectId \<ge> objCount then
                         (Inl (JsRangeError
                            (''editTextObject: objectId '' @ to_string objectId @
                             '' out of range [0, '' @ to_string (objCount - 1) @ '']'')),
                          ReleasePage handle pageIndex pg fromCache s1)
                       else
                         (let obj = FPDFPage_GetObject L (calls s1) pg objectId
                          in if FPDFPageObj_GetType L (calls s1) obj \<noteq> FPDF_PAGEOBJ_TEXT then
                               (Inl (JsTypeError
                                  (''editTextObject: object '' @ to_string objectId @
                                   '' is not a text object'')),
                                ReleasePage handle pageIndex pg fromCache s1)
                             else
                               (let text = c_str newText;
                                    ok = FPDFText_SetText L (calls s1) obj text;
                                    s2 = library_call [EvSetText pg obj text ok] s1
                                in if \<not> ok then
                                     (Inl (JsError ''editTextObject: FPDFText_SetText failed''),
                                      ReleasePage handle pageIndex pg fromCache s2)
                                   else (Inr (), CachePageDirty handle pageIndex pg s2))))))"

text \<open>
  \<^verbatim>\<open>BufferReadBlock\<close>, the read callback handed to the library with the JPEG bytes;
  \<^verbatim>\<open>position + size\<close> is an \<^verbatim>\<open>unsigned long\<close> sum (64 bits).
\<close>

definition BufferReadBlock :: "byte list \<Rightarrow> nat \<Rightarrow> nat \<Rightarrow> byte list option" where
  "BufferReadBlock bfa_data position size' =
     (if (position + size') mod 2 ^ 64 > length bfa_data then None
      else Some (take size' (drop position bfa_data)))"

definition ReplaceImageObject ::
  "'d pdfium \<Rightarrow> int \<Rightarrow> int \<Rightarrow> int \<Rightarrow> byte list \<Rightarrow> string \<Rightarrow> globals \<Rightarrow>
   (js_error + unit) \<times> globals"
where
  "ReplaceImageObject L handle pageIndex objectId imageData fmt s =
     (case RequireDocument handle s of
        (exc, doc) \<Rightarrow>
          if doc = 0 then (return_pending exc (), s)
          else
            (case AcquirePage L handle doc pageIndex s of
               (pg, fromCache, s1) \<Rightarrow>
                 if pg = 0 then
                   (Inl (JsError (''replaceImageObject: failed to load page '' @
                                  to_string pageIndex)), s1)
                 else
                   (let objCount = FPDFPage_CountObjects L (calls s1) pg
                    in if objectId < 0 \<or> objectId \<ge> objCount then
                         (Inl (JsRangeError
                            (''replaceImageObject: objectId '' @ to_string objectId @
                             '' out of range [0, '' @ to_string (objCount - 1) @ '']'')),
                          ReleasePage handle pageIndex pg fromCache s1)
                       else
                         (let obj = FPDFPage_GetObject L (calls s1) pg objectId
                          in if FPDFPageObj_GetType L (calls s1) obj \<noteq> FPDF_PAGEOBJ_IMAGE then
                               (Inl (JsTypeError
                                  (''replaceImageObject: object '' @ to_string objectId @
                                   '' is not an image object'')),
                                ReleasePage handle pageIndex pg fromCache s1)
                             else if fmt = ''jpeg'' then
                               (let ok = FPDFImageObj_LoadJpegFileInline L (calls s1) pg obj
                                           (length imageData) (BufferReadBlock imageData);
                                    s2 = library_call [EvLoadJpegFileInline pg obj ok] s1
                                in if \<not> ok then
                                     (Inl (JsError
                                        ''replaceImageObject: failed to load replacement image''),
                                      ReleasePage handle pageIndex pg fromCache s2)
                                   else (Inr (), CachePageDirty handle pageIndex pg s2))
                             else
                               (Inl (JsError
                                  (''replaceImageObject: only '' @ [CHR 0x27] @ ''jpeg'' @
                                   [CHR 0x27] @ '' format is currently supported. '' @
                                   ''Convert other formats to JPEG before calling this function.'')),
                                ReleasePage handle pageIndex pg fromCache s1)))))"

definition ReplaceImageObjectBitmap ::
  "'d pdfium \<Rightarrow> int \<Rightarrow> int \<Rightarrow> int \<Rightarrow> byte list \<Rightarrow> int \<Rightarrow> int \<Rightarrow> globals \<Rightarrow>
   (js_error + unit) \<times> globals"
where
  "ReplaceImageObjectBitmap L handle pageIndex objectId bgraData width height s =
     (let BYTES_PER_PIXEL = 4;
          expectedSize = int32 (width * height * BYTES_PER_PIXEL)
      in if int32 (int (length bgraData)) < expectedSize then
           (Inl (JsRangeError
              (''replaceImageObjectBitmap: bgraData buffer too small. '' @
               ''Expected '' @ to_string expectedSize @ '' bytes for '' @
               to_string width @ ''x'' @ to_string height @ '' BGRA'')), s)
         else
     (case RequireDocument handle s of
        (exc, doc) \<Rightarrow>
          if doc = 0 then (return_pending exc (), s)
          else
            (case AcquirePage L handle doc pageIndex s of
               (pg, fromCache, s1) \<Rightarrow>
                 if pg = 0 then
                   (Inl (JsError (''replaceImageObjectBitmap: failed to load page '' @
                                  to_string pageIndex)), s1)
                 else
                   (let objCount = FPDFPage_CountObjects L (calls s1) pg
                    in if objectId < 0 \<or> objectId \<ge> objCount then
                         (Inl (JsRangeError
                            (''replaceImageObjectBitmap: objectId '' @ to_string objectId @
                             '' out of range [0, '' @ to_string (objCount - 1) @ '']'')),
                          ReleasePage handle pageIndex pg fromCache s1)
                       else
                         (let obj = FPDFPage_GetObject L (calls s1) pg objectId
                          in if FPDFPageObj_GetType L (calls s1) obj \<noteq> FPDF_PAGEOBJ_IMAGE then
                               (Inl (JsTypeError
                                  (''replaceImageObjectBitmap: object '' @ to_string objectId @
                                   '' is not an image object'')),
                                ReleasePage handle pageIndex pg fromCache s1)
                             else
                               (let stride = int32 (width * BYTES_PER_PIXEL);
                                    bitmap = FPDFBitmap_CreateEx L (calls s1) width height
                                               bgraData stride;
                                    s2 = library_call
                                           [EvBitmapCreateEx width height stride bitmap] s1
                                in if bitmap = 0 then
                                     (Inl (JsError
                                        ''replaceImageObjectBitmap: FPDFBitmap_CreateEx failed''),
                                      ReleasePage handle pageIndex pg fromCache s2)
                                   else
                                     (let ok = FPDFImageObj_SetBitmap L (calls s2) pg obj bitmap;
                                          s3 = library_call
                                                 [EvSetBitmap pg obj bitmap ok,
                                                  EvBitmapDestroy bitmap] s2
                                      in if \<not> ok then
                                           (Inl (JsError
                                              ''replaceImageObjectBitmap: FPDFImageObj_SetBitmap failed''),
                                            ReleasePage handle pageIndex pg fromCache s3)
                                         else
                                           (Inr (), CachePageDirty handle pageIndex pg s3))))))))"

subsection \<open>Rendering (\<^verbatim>\<open>render.cc\<close>)\<close>

text \<open>\<^verbatim>\<open>FPDF_ANNOT | FPDF_PRINTING | FPDF_LCD_TEXT\<close>, flags of \<^verbatim>\<open>fpdfview.h\<close>.\<close>

definition RENDER_FLAGS :: int where
  "RENDER_FLAGS = 0x803"

text \<open>
  The copy loop: row \<open>y\<close> of the library's bitmap starts \<open>y * stride\<close> bytes after the
  buffer pointer; the output rows are packed, and bytes 0 and 2 of each pixel change
  places. \<open>src\<close> is the memory as seen from the buffer pointer.
\<close>

definition RenderPage_convert :: "(int \<Rightarrow> byte) \<Rightarrow> int \<Rightarrow> int \<Rightarrow> int \<Rightarrow> byte list" where
  "RenderPage_convert src stride width height =
     concat (map (\<lambda>y.
       concat (map (\<lambda>x.
         (let si = x * 4; srcRow = y * stride
          in [src (srcRow + si + 2), src (srcRow + si + 1),
              src (srcRow + si + 0), src (srcRow + si + 3)]))
         [0..width - 1]))
       [0..height - 1])"

definition RenderPage ::
  "'d pdfium \<Rightarrow> int \<Rightarrow> int \<Rightarrow> double \<Rightarrow> globals \<Rightarrow> (js_error + 'd js_value) \<times> globals"
where
  "RenderPage L handle pageIndex scale s =
     (case RequireDocument handle s of
        (exc, doc) \<Rightarrow>
          if doc = 0 then (return_pending exc Undefined, s)
          else
            (let pageCount = FPDF_GetPageCount L (calls s) doc
             in if pageIndex < 0 \<or> pageIndex \<ge> pageCount then
                  (Inl (JsRangeError
                     (''renderPage: pageIndex '' @ to_string pageIndex @
                      '' out of range [0, '' @ to_string (pageCount - 1) @ '']'')), s)
                else if double_le scale double_zero then
                  (Inl (JsRangeError ''renderPage: scale must be > 0''), s)
                else
                  (case AcquirePage L handle doc pageIndex s of
                     (pg, fromCache, s1) \<Rightarrow>
                       if pg = 0 then
                         (Inl (JsError (''renderPage: failed to load page '' @
                                        to_string pageIndex)), s1)
                       else
                         (let pageWidthPt = double_of_float (FPDF_GetPageWidthF L (calls s1) pg);
                              pageHeightPt = double_of_float (FPDF_GetPageHeightF L (calls s1) pg);
                              width = double_to_int
                                        (double_add (double_mul pageWidthPt scale) double_half);
                              height = double_to_int
                                         (double_add (double_mul pageHeightPt scale) double_half)
                          in if width \<le> 0 \<or> height \<le> 0 then
                               (Inl (JsError ''renderPage: resulting bitmap size is zero''),
                                ReleasePage handle pageIndex pg fromCache s1)
                             else
                               (let bitmap = FPDFBitmap_Create L (calls s1) width height;
                                    s2 = library_call [EvBitmapCreate width height bitmap] s1
                                in if bitmap = 0 then
                                     (Inl (JsError ''renderPage: FPDFBitmap_Create failed''),
                                      ReleasePage handle pageIndex pg fromCache s2)
                                   else
                                     (let s3 = library_call
                                                 [EvBitmapFillRect bitmap 0 0 width height
                                                    0xFFFFFFFF,
                                                  EvRenderPageBitmap bitmap pg 0 0 width height
                                                    0 RENDER_FLAGS] s2;
                                          src = FPDFBitmap_GetBuffer L (calls s3) bitmap;
                                          stride = FPDFBitmap_GetStride L (calls s3) bitmap;
                                          resultBuf = RenderPage_convert src stride width height;
                                          s4 = library_call [EvBitmapDestroy bitmap] s3
                                      in (Inr (Object
                                                 [(''data'', Buffer resultBuf),
                                                  (''width'', Number (double_of_int L width)),
                                                  (''height'', Number (double_of_int L height))]),
                                          ReleasePage handle pageIndex pg fromCache s4)))))))"

subsection \<open>The heads of the exported functions\<close>

text \<open>\<^verbatim>\<open>info[k].As<Napi::Number>().Int32Value()\<close>, after \<^verbatim>\<open>IsNumber\<close> has been checked.\<close>

fun Int32Value_of :: "'d pdfium \<Rightarrow> 'd js_value \<Rightarrow> int" where
  "Int32Value_of L (Number x) = Int32Value L x"
| "Int32Value_of L v = 0"

text \<open>\<^verbatim>\<open>OpenDocument\<close> initialises the library before it looks at its arguments.\<close>

definition OpenDocument_napi ::
  "'d pdfium \<Rightarrow> 'd js_value list \<Rightarrow> globals \<Rightarrow> (js_error + 'd js_value) \<times> globals"
where
  "OpenDocument_napi L info s0 =
     (let s = EnsurePdfiumInit s0
      in if length info < 1 \<or> \<not> IsBuffer (arg info 0) then
           (Inl (JsTypeError ''openDocument: first argument must be a Buffer''), s)
         else
           OpenDocument L (buffer_data (arg info 0))
             (if length info > 1 \<and> IsString (arg info 1)
              then Some (Utf8Value L (Utf16Value (arg info 1))) else None) s)"

definition CloseDocument_napi ::
  "'d pdfium \<Rightarrow> 'd js_value list \<Rightarrow> globals \<Rightarrow> (js_error + unit) \<times> globals"
where
  "CloseDocument_napi L info s =
     (if length info < 1 \<or> \<not> IsNumber (arg info 0) then
        (Inl (JsTypeError ''closeDocument: argument must be a numeric handle''), s)
      else CloseDocument (Int32Value_of L (arg info 0)) s)"

definition GetPageCount_napi ::
  "'d pdfium \<Rightarrow> 'd js_value list \<Rightarrow> globals \<Rightarrow> (js_error + 'd js_value) \<times> globals"
where
  "GetPageCount_napi L info s =
     (if length info < 1 \<or> \<not> IsNumber (arg info 0) then
        (Inl (JsTypeError ''getPageCount: argument must be a numeric handle''), s)
      else GetPageCount L (Int32Value_of L (arg info 0)) s)"

definition SaveDocument_napi ::
  "'d pdfium \<Rightarrow> 'd js_value list \<Rightarrow> globals \<Rightarrow> (js_error + 'd js_value) \<times> globals"
where
  "SaveDocument_napi L info s =
     (if length info < 1 \<or> \<not> IsNumber (arg info 0) then
        (Inl (JsTypeError ''saveDocument: argument must be a numeric handle''), s)
      else SaveDocument L (Int32Value_of L (arg info 0)) s)"

definition RenderPage_napi ::
  "'d pdfium \<Rightarrow> 'd js_value list \<Rightarrow> globals \<Rightarrow> (js_error + 'd js_value) \<times> globals"
where
  "RenderPage_napi L info s =
     (case (length info < 3 \<or> \<not> IsNumber (arg info 0) \<or> \<not> IsNumber (arg info 1), arg info 2) of
        (False, Number scale) \<Rightarrow>
          RenderPage L (Int32Value_of L (arg info 0)) (Int32Value_of L (arg info 1))
            (DoubleValue L scale) s
      | _ \<Rightarrow>
          (Inl (JsTypeError
             ''renderPage: requires (handle: number, pageIndex: number, scale: number)''), s))"

definition ListPageObjects_napi ::
  "'d pdfium \<Rightarrow> 'd js_value list \<Rightarrow> globals \<Rightarrow> (js_error + 'd js_value) \<times> globals"
where
  "ListPageObjects_napi L info s =
     (if length info < 2 \<or> \<not> IsNumber (arg info 0) \<or> \<not> IsNumber (arg info 1) then
        (Inl (JsTypeError
           ''listPageObjects: requires (handle: number, pageIndex: number)''), s)
      else ListPageObjects L (Int32Value_of L (arg info 0)) (Int32Value_of L (arg info 1)) s)"

definition EditTextObject_napi ::
  "'d pdfium \<Rightarrow> 'd js_value list \<Rightarrow> globals \<Rightarrow> (js_error + unit) \<times> globals"
where
  "EditTextObject_napi L info s =
     (if length info < 4 \<or> \<not> IsNumber (arg info 0) \<or> \<not> IsNumber (arg info 1) \<or>
         \<not> IsNumber (arg info 2) \<or> \<not> IsString (arg info 3) then
        (Inl (JsTypeError
           ''editTextObject: requires (handle, pageIndex, objectId, newText)''), s)
      else
        EditTextObject L (Int32Value_of L (arg info 0)) (Int32Value_of L (arg info 1))
          (Int32Value_of L (arg info 2)) (Utf16Value (arg info 3)) s)"

definition ReplaceImageObject_napi ::
  "'d pdfium \<Rightarrow> 'd js_value list \<Rightarrow> globals \<Rightarrow> (js_error + unit) \<times> globals"
where
  "ReplaceImageObject_napi L info s =
     (if length info < 5 \<or> \<not> IsNumber (arg info 0) \<or> \<not> IsNumber (arg info 1) \<or>
         \<not> IsNumber (arg info 2) \<or> \<not> IsBuffer (arg info 3) \<or> \<not> IsString (arg info 4) then
        (Inl (JsTypeError
           (''replaceImageObject: requires '' @
            ''(handle, pageIndex, objectId, imageData: Buffer, format: string)'')), s)
      else
        ReplaceImageObject L (Int32Value_of L (arg info 0)) (Int32Value_of L (arg info 1))
          (Int32Value_of L (arg info 2)) (buffer_data (arg info 3))
          (Utf8Value L (Utf16Value (arg info 4))) s)"

definition ReplaceImageObjectBitmap_napi ::
  "'d pdfium \<Rightarrow> 'd js_value list \<Rightarrow> globals \<Rightarrow> (js_error + unit) \<times> globals"
where
  "ReplaceImageObjectBitmap_napi L info s =
     (if length info < 6 \<or> \<not> IsNumber (arg info 0) \<or> \<not> IsNumber (arg info 1) \<or>
         \<not> IsNumber (arg info 2) \<or> \<not> IsBuffer (arg info 3) \<or> \<not> IsNumber (arg info 4) \<or>
         \<not> IsNumber (arg info 5) then
        (Inl (JsTypeError
           (''replaceImageObjectBitmap: requires '' @
            ''(handle, pageIndex, objectId, bgraData: Buffer, width, height)'')), s)
      else
        ReplaceImageObjectBitmap L (Int32Value_of L (arg info 0)) (Int32Value_of L (arg info 1))
          (Int32Value_of L (arg info 2)) (buffer_data (arg info 3))
          (Int32Value_of L (arg info 4)) (Int32Value_of L (arg info 5)) s)"

subsection \<open>The module's exports\<close>

text \<open>
  \<^verbatim>\<open>Init\<close> registers nine functions under their JavaScript names, and the cleanup hook.
  A function declared \<^verbatim>\<open>void\<close> hands \<^verbatim>\<open>undefined\<close> to JavaScript. A \<open>call\<close> is one
  invocation from outside, of an exported function on its arguments or of the hook, and
  \<open>invoke\<close> runs it.
\<close>

datatype export =
    openDocument | closeDocument | getPageCount | saveDocument | renderPage
  | listPageObjects | editTextObject | replaceImageObject | replaceImageObjectBitmap

definition void_result :: "(js_error + unit) \<times> globals \<Rightarrow> (js_error + 'd js_value) \<times> globals" where
  "void_result r = (case r of (Inl e, s) \<Rightarrow> (Inl e, s) | (Inr u, s) \<Rightarrow> (Inr Undefined, s))"

fun Init ::
  "'d pdfium \<Rightarrow> export \<Rightarrow> 'd js_value list \<Rightarrow> globals \<Rightarrow> (js_error + 'd js_value) \<times> globals"
where
  "Init L openDocument info s = OpenDocument_napi L info s"
| "Init L closeDocument info s = void_result (CloseDocument_napi L info s)"
| "Init L getPageCount info s = GetPageCount_napi L info s"
| "Init L saveDocument info s = SaveDocument_napi L info s"
| "Init L renderPage info s = RenderPage_napi L info s"
| "Init L listPageObjects info s = ListPageObjects_napi L info s"
| "Init L editTextObject info s = void_result (EditTextObject_napi L info s)"
| "Init L replaceImageObject info s = void_result (ReplaceImageObject_napi L info s)"
| "Init L replaceImageObjectBitmap info s =
     void_result (ReplaceImageObjectBitmap_napi L info s)"

datatype 'd call = Call export "'d js_value list" | Cleanup_hook

fun invoke :: "'d pdfium \<Rightarrow> 'd call \<Rightarrow> globals \<Rightarrow> (js_error + 'd js_value) \<times> globals" where
  "invoke L (Call f info) s = Init L f info s"
| "invoke L Cleanup_hook s = (Inr Undefined, Cleanup s)"

section \<open>Reading the history\<close>

text \<open>
  What an operation asked of the library is the part of the history it added.
  \<open>regenerated\<close> lists the pages handed to \<^verbatim>\<open>FPDFPage_GenerateContent\<close>, \<open>closed_pages\<close>
  those handed to \<^verbatim>\<open>FPDF_ClosePage\<close>, \<open>serialized\<close> the documents handed to
  \<^verbatim>\<open>FPDF_SaveAsCopy\<close>, each in call order and with repetitions.
\<close>

definition new_calls :: "globals \<Rightarrow> globals \<Rightarrow> event list" where
  "new_calls s s' = drop (length (calls s)) (calls s')"

fun regenerated :: "event list \<Rightarrow> FPDF_PAGE list" where
  "regenerated [] = []"
| "regenerated (EvGenerateContent p ok # es) = p # regenerated es"
| "regenerated (e # es) = regenerated es"

fun failed_regenerations :: "event list \<Rightarrow> FPDF_PAGE list" where
  "failed_regenerations [] = []"
| "failed_regenerations (EvGenerateContent p ok # es) =
     (if ok then failed_regenerations es else p # failed_regenerations es)"
| "failed_regenerations (e # es) = failed_regenerations es"

fun closed_pages :: "event list \<Rightarrow> FPDF_PAGE list" where
  "closed_pages [] = []"
| "closed_pages (EvClosePage p # es) = p # closed_pages es"
| "closed_pages (e # es) = closed_pages es"

fun serialized :: "event list \<Rightarrow> FPDF_DOCUMENT list" where
  "serialized [] = []"
| "serialized (EvSaveAsCopy d ok # es) = d # serialized es"
| "serialized (e # es) = serialized es"

fun is_flush_call :: "event \<Rightarrow> bool" where
  "is_flush_call (EvGenerateContent p ok) = True"
| "is_flush_call (EvClosePage p) = True"
| "is_flush_call e = False"

text \<open>The cache entries of one document, in the order the loops visit them.\<close>

definition cached_pages :: "int \<Rightarrow> globals \<Rightarrow> CachedPage list" where
  "cached_pages h s =
     (case map_find h (g_pageCache s) of None \<Rightarrow> [] | Some pages \<Rightarrow> map snd pages)"

text \<open>
  The invariant of the page cache: every entry, of every document, has its dirty flag set.
\<close>

definition all_dirty :: "globals \<Rightarrow> bool" where
  "all_dirty s = list_all (\<lambda>(h, pages). list_all (\<lambda>(i, cp). dirty cp) pages) (g_pageCache s)"

text \<open>A sequence of calls from JavaScript, each run to completion before the next.\<close>

definition run :: "'d pdfium \<Rightarrow> 'd call list \<Rightarrow> globals \<Rightarrow> globals" where
  "run L cs s = foldl (\<lambda>s c. snd (invoke L c s)) s cs"

section \<open>A small library to run the addon against\<close>

text \<open>
  A library with two-page documents whose pages hold a text object (id 0) and an image
  object (id 1). Pointers are made fresh from the length of the history. \<open>gen_ok\<close> and
  \<open>save_ok\<close> say whether \<^verbatim>\<open>FPDFPage_GenerateContent\<close> and \<^verbatim>\<open>FPDF_SaveAsCopy\<close> succeed.
  Its pages are 2 points wide and 1 point high (\<^verbatim>\<open>2.0f\<close> is \<open>0x40000000\<close> and \<^verbatim>\<open>1.0f\<close> is
  \<open>0x3F800000\<close>). JavaScript numbers are stood in for by integers, and strings are taken
  to be ASCII.
\<close>

definition demo_pdfium :: "bool \<Rightarrow> bool \<Rightarrow> int pdfium" where
  "demo_pdfium gen_ok save_ok =
     \<lparr>FPDF_LoadMemDocument = (\<lambda>h buffer n password. if buffer = [] then 0 else 100 + length h),
      FPDF_GetLastError = (\<lambda>h. FPDF_ERR_FORMAT),
      FPDF_GetPageCount = (\<lambda>h doc. 2),
      FPDF_LoadPage = (\<lambda>h doc i. if 0 \<le> i \<and> i < 2 then 200 + length h else 0),
      FPDFPage_GenerateContent = (\<lambda>h pg. gen_ok),
      FPDF_SaveAsCopy = (\<lambda>h doc. (save_ok, if save_ok then [[0x25, 0x50], [0x44, 0x46]] else [])),
      FPDFPage_CountObjects = (\<lambda>h pg. 2),
      FPDFPage_GetObject = (\<lambda>h pg i. 300 + nat i),
      FPDFPageObj_GetType = (\<lambda>h obj. if obj = 300 then FPDF_PAGEOBJ_TEXT else FPDF_PAGEOBJ_IMAGE),
      FPDFPageObj_GetBounds = (\<lambda>h obj. (0, 0, 10, 10)),
      FPDFText_LoadPage = (\<lambda>h pg. 400 + length h),
      FPDFTextObj_GetText = (\<lambda>h obj textPage. (6, [0x48, 0x69, 0])),
      FPDFText_SetText = (\<lambda>h obj text. True),
      FPDFImageObj_LoadJpegFileInline = (\<lambda>h pg obj n read. read 0 n \<noteq> None),
      FPDFBitmap_CreateEx = (\<lambda>h w ht bytes stride. 500 + length h),
      FPDFImageObj_SetBitmap = (\<lambda>h pg obj bitmap. True),
      FPDF_GetPageWidthF = (\<lambda>h pg. 0x40000000),
      FPDF_GetPageHeightF = (\<lambda>h pg. 0x3F800000),
      FPDFBitmap_Create = (\<lambda>h w ht. 600 + length h),
      FPDFBitmap_GetBuffer = (\<lambda>h bitmap i. word_of_int i),
      FPDFBitmap_GetStride = (\<lambda>h bitmap. 16),
      Int32Value = int32,
      DoubleValue = (\<lambda>i. double_round (i < 0) (nat \<bar>i\<bar>) 0),
      double_of_int = (\<lambda>i. i),
      Utf8Value = map (\<lambda>u. char_of (unat u))\<rparr>"

text \<open>
  One document open (handle 1); and then the text of its page 1 and the image of its
  page 0 edited, so both pages cached dirty.
\<close>

definition demo_opened :: "bool \<Rightarrow> bool \<Rightarrow> globals" where
  "demo_opened gen_ok save_ok =
     run (demo_pdfium gen_ok save_ok) [Call openDocument [Buffer [0x25]]] initial"

definition demo_edited :: "bool \<Rightarrow> bool \<Rightarrow> globals" where
  "demo_edited gen_ok save_ok =
     run (demo_pdfium gen_ok save_ok)
       [Call openDocument [Buffer [0x25]],
        Call editTextObject [Number 1, Number 1, Number 0, String [0x48, 0x69]],
        Call replaceImageObject
          [Number 1, Number 0, Number 1, Buffer [0xFF, 0xD8], String [0x6A, 0x70, 0x65, 0x67]]]
       initial"

text \<open>
  What releasing a page after a failed edit leaves behind. \<open>s\<close> is the state before the
  operation, \<open>s1\<close> the state once the page \<open>pg\<close> is acquired and \<open>s'\<close> the state the
  operation ends in: the cache and the registry are those of \<open>s\<close>, and of the library
  calls made since the page was acquired exactly one closes a page, namely \<open>pg\<close> as
  the last call, when \<open>pg\<close> was loaded for this operation, and none does when it came from
  the cache.
\<close>

definition released_uncached :: "globals \<Rightarrow> globals \<Rightarrow> globals \<Rightarrow> FPDF_PAGE \<Rightarrow> bool \<Rightarrow> bool" where
  "released_uncached s s1 s' pg fromCache =
     (g_pageCache s' = g_pageCache s \<and> g_documents s' = g_documents s \<and>
      calls s' = calls s1 @ new_calls s1 s' \<and>
      closed_pages (new_calls s1 s') = (if fromCache then [] else [pg]) \<and>
      (\<not> fromCache \<longrightarrow> last (calls s') = EvClosePage pg))"

text \<open>The state after flushing the pages of handle 1 in \<open>demo_edited\<close>.\<close>

definition demo_flushed :: "bool \<Rightarrow> bool \<Rightarrow> globals" where
  "demo_flushed gen_ok save_ok =
     snd (FlushAndCloseCachedPages (demo_pdfium gen_ok save_ok) 1 (demo_edited gen_ok save_ok))"

text \<open>The states after saving handle 1 in \<open>demo_edited\<close> once and twice.\<close>

definition demo_saved :: "bool \<Rightarrow> bool \<Rightarrow> globals" where
  "demo_saved gen_ok save_ok =
     snd (SaveDocument (demo_pdfium gen_ok save_ok) 1 (demo_edited gen_ok save_ok))"


text \<open>The state after closing handle 1 in \<open>demo_edited\<close>.\<close>

definition demo_closed :: "bool \<Rightarrow> bool \<Rightarrow> globals" where
  "demo_closed gen_ok save_ok = snd (CloseDocument 1 (demo_edited gen_ok save_ok))"

text \<open>The cache entry of one page, if there is one: what \<^verbatim>\<open>AcquirePage\<close> looks for.\<close>

definition cache_entry :: "int \<Rightarrow> int \<Rightarrow> globals \<Rightarrow> CachedPage option" where
  "cache_entry h i s =
     (case map_find h (g_pageCache s) of None \<Rightarrow> None | Some pages \<Rightarrow> map_find i pages)"

text \<open>
  The ways the cache changes in one step: not at all; emptied; the entries of one
  document erased; or \<^verbatim>\<open>CachePageDirty\<close> applied to it.
\<close>

definition cache_step :: "globals \<Rightarrow> globals \<Rightarrow> bool" where
  "cache_step s s' =
     (g_pageCache s' = g_pageCache s \<or>
      g_pageCache s' = [] \<or>
      (\<exists>h. g_pageCache s' = map_erase h (g_pageCache s)) \<or>
      (\<exists>h i pg. g_pageCache s' = g_pageCache (CachePageDirty h i pg s)))"

text \<open>
  What the tables look like in every state the addon can be in: keys in strictly
  ascending order, as in a \<^verbatim>\<open>std::map\<close>; no null document in the registry; and every
  document of the cache open.
\<close>

definition ascending :: "'v std_map \<Rightarrow> bool" where
  "ascending m = sorted_wrt (<) (map fst m)"

definition well_formed :: "globals \<Rightarrow> bool" where
  "well_formed s =
     (ascending (g_documents s) \<and>
      list_all (\<lambda>(h, doc). doc \<noteq> 0) (g_documents s) \<and>
      ascending (g_pageCache s) \<and>
      list_all (\<lambda>(h, pages). ascending pages \<and> map_find h (g_documents s) \<noteq> None)
        (g_pageCache s))"

section \<open>Facts about the containers and the history\<close>

lemma map_find_assign_same: "map_find k (map_assign k v m) = Some v"
  by (induction m) auto

lemma map_find_assign_other: "k' \<noteq> k \<Longrightarrow> map_find k' (map_assign k v m) = map_find k' m"
  by (induction m) auto

lemma map_find_erase_same: "map_find k (map_erase k m) = None"
  by (induction m) auto

lemma map_find_erase_other: "k' \<noteq> k \<Longrightarrow> map_find k' (map_erase k m) = map_find k' m"
  by (induction m) auto

lemma map_find_in_set: "map_find k m = Some v \<Longrightarrow> (k, v) \<in> set m"
  by (induction m) (auto split: if_splits)

lemma set_map_assign: "set (map_assign k v m) \<subseteq> insert (k, v) (set m)"
  by (induction m) (auto split: if_splits)

lemma set_map_erase: "set (map_erase k m) \<subseteq> set m"
  by (induction m) (auto split: if_splits)


lemma failed_regenerations_append:
  "failed_regenerations (xs @ ys) = failed_regenerations xs @ failed_regenerations ys"
  by (induction xs rule: failed_regenerations.induct) auto

lemma closed_pages_append: "closed_pages (xs @ ys) = closed_pages xs @ closed_pages ys"
  by (induction xs rule: closed_pages.induct) auto

lemma serialized_append: "serialized (xs @ ys) = serialized xs @ serialized ys"
  by (induction xs rule: serialized.induct) auto

lemma serialized_flush_calls: "list_all is_flush_call evs \<Longrightarrow> serialized evs = []"
  by (induction evs rule: serialized.induct) auto

lemma closed_pages_map_close:
  "closed_pages (map (\<lambda>(idx, cp). EvClosePage (page cp)) pages) = map (page \<circ> snd) pages"
  by (induction pages) auto

lemma regenerated_map_close:
  "regenerated (map (\<lambda>(idx, cp). EvClosePage (page cp)) pages) = []"
  by (induction pages) auto

lemma failed_regenerations_set:
  "(failed_regenerations evs = []) = (\<forall>p ok. EvGenerateContent p ok \<in> set evs \<longrightarrow> ok)"
  by (induction evs rule: failed_regenerations.induct) auto

lemma new_calls_append: "calls s' = calls s @ evs \<Longrightarrow> new_calls s s' = evs"
  by (simp add: new_calls_def)

lemma new_calls_same: "new_calls s s = []"
  by (simp add: new_calls_def)

lemma calls_library_call: "calls (library_call evs s) = calls s @ evs"
  by (simp add: library_call_def)

lemma g_pageCache_library_call: "g_pageCache (library_call evs s) = g_pageCache s"
  by (simp add: library_call_def)

lemma g_documents_library_call: "g_documents (library_call evs s) = g_documents s"
  by (simp add: library_call_def)

text \<open>
  The flush loop only appends to the history: one regeneration per dirty entry and one
  close per entry, in entry order. The flag it returns is the one it was given unless a
  regeneration failed.
\<close>

lemma FlushAndCloseCachedPages_loop_calls:
  "FlushAndCloseCachedPages_loop L pages allOk s = (r, s') \<Longrightarrow>
     \<exists>evs. s' = library_call evs s \<and>
           regenerated evs = map page (filter dirty (map snd pages)) \<and>
           closed_pages evs = map page (map snd pages) \<and>
           list_all is_flush_call evs \<and>
           r = (allOk \<and> failed_regenerations evs = [])"
proof (induction pages arbitrary: allOk s)
  case Nil
  then have "s' = library_call [] s" "r = allOk"
    by (simp_all add: library_call_def)
  then show ?case
    by (intro exI [of _ "[]"]) simp
next
  case (Cons entry pages)
  obtain idx cp where entry: "entry = (idx, cp)"
    by (cases entry)
  show ?case
  proof (cases "dirty cp")
    case True
    define ok where "ok = FPDFPage_GenerateContent L (calls s) (page cp)"
    define s1 where
      "s1 = library_call [EvClosePage (page cp)] (library_call [EvGenerateContent (page cp) ok] s)"
    from Cons.prems True
    have run: "FlushAndCloseCachedPages_loop L pages (if \<not> ok then False else allOk) s1 = (r, s')"
      by (simp add: entry ok_def s1_def Let_def)
    from Cons.IH [OF run] obtain evs where evs:
      "s' = library_call evs s1"
      "regenerated evs = map page (filter dirty (map snd pages))"
      "closed_pages evs = map page (map snd pages)"
      "list_all is_flush_call evs"
      "r = ((if \<not> ok then False else allOk) \<and> failed_regenerations evs = [])"
      by blast
    let ?evs = "[EvGenerateContent (page cp) ok, EvClosePage (page cp)] @ evs"
    have "s' = library_call ?evs s"
      by (simp add: evs(1) s1_def library_call_def)
    moreover have "regenerated ?evs = map page (filter dirty (map snd (entry # pages)))"
      by (simp add: evs(2) entry True)
    moreover have "closed_pages ?evs = map page (map snd (entry # pages))"
      by (simp add: evs(3) entry)
    moreover have "list_all is_flush_call ?evs"
      by (simp add: evs(4))
    moreover have "r = (allOk \<and> failed_regenerations ?evs = [])"
      by (simp add: evs(5))
    ultimately show ?thesis
      by blast
  next
    case False
    define s1 where "s1 = library_call [EvClosePage (page cp)] s"
    from Cons.prems False
    have run: "FlushAndCloseCachedPages_loop L pages allOk s1 = (r, s')"
      by (simp add: entry s1_def)
    from Cons.IH [OF run] obtain evs where evs:
      "s' = library_call evs s1"
      "regenerated evs = map page (filter dirty (map snd pages))"
      "closed_pages evs = map page (map snd pages)"
      "list_all is_flush_call evs"
      "r = (allOk \<and> failed_regenerations evs = [])"
      by blast
    let ?evs = "EvClosePage (page cp) # evs"
    have "s' = library_call ?evs s"
      by (simp add: evs(1) s1_def library_call_def)
    moreover have "regenerated ?evs = map page (filter dirty (map snd (entry # pages)))"
      by (simp add: evs(2) entry False)
    moreover have "closed_pages ?evs = map page (map snd (entry # pages))"
      by (simp add: evs(3) entry)
    moreover have "list_all is_flush_call ?evs"
      by (simp add: evs(4))
    moreover have "r = (allOk \<and> failed_regenerations ?evs = [])"
      by (simp add: evs(5))
    ultimately show ?thesis
      by blast
  qed
qed

text \<open>The same for the whole of \<^verbatim>\<open>FlushAndCloseCachedPages\<close>, cache included.\<close>

lemma FlushAndCloseCachedPages_effect:
  assumes "FlushAndCloseCachedPages L h s = (r, s')"
  shows "\<exists>evs. s' = (library_call evs s)\<lparr>g_pageCache := map_erase h (g_pageCache s)\<rparr> \<and>
           regenerated evs = map page (filter dirty (cached_pages h s)) \<and>
           closed_pages evs = map page (cached_pages h s) \<and>
           list_all is_flush_call evs \<and>
           r = (failed_regenerations evs = [])"
proof (cases "map_find h (g_pageCache s)")
  case None
  have absent: "map_erase k m = m" if "map_find k m = None" for k and m :: "'v std_map"
    using that by (induction m) (auto split: if_splits)
  from assms None have "r" "s' = s"
    by (simp_all add: FlushAndCloseCachedPages_def)
  then have "s' = (library_call [] s)\<lparr>g_pageCache := map_erase h (g_pageCache s)\<rparr>"
    by (simp add: library_call_def absent [OF None])
  with \<open>r\<close> None show ?thesis
    by (intro exI [of _ "[]"]) (simp add: cached_pages_def)
next
  case (Some pages)
  obtain r1 s1 where loop: "FlushAndCloseCachedPages_loop L pages True s = (r1, s1)"
    by (cases "FlushAndCloseCachedPages_loop L pages True s")
  with assms Some have res: "r = r1" "s' = s1\<lparr>g_pageCache := map_erase h (g_pageCache s1)\<rparr>"
    by (simp_all add: FlushAndCloseCachedPages_def)
  from FlushAndCloseCachedPages_loop_calls [OF loop] obtain evs where evs:
    "s1 = library_call evs s"
    "regenerated evs = map page (filter dirty (map snd pages))"
    "closed_pages evs = map page (map snd pages)"
    "list_all is_flush_call evs"
    "r1 = (True \<and> failed_regenerations evs = [])"
    by blast
  have "s' = (library_call evs s)\<lparr>g_pageCache := map_erase h (g_pageCache s)\<rparr>"
    by (simp add: res(2) evs(1) library_call_def)
  with evs res(1) Some show ?thesis
    by (intro exI [of _ evs]) (simp add: cached_pages_def)
qed


lemma library_call_Nil: "library_call [] s = s"
  by (simp add: library_call_def)

lemma library_call_twice: "library_call ys (library_call xs s) = library_call (xs @ ys) s"
  by (simp add: library_call_def)

lemma AcquirePage_cases:
  assumes "AcquirePage L h doc i s = (pg, fromCache, s1)"
  shows "s1 = library_call (if fromCache then [] else [EvLoadPage doc i pg]) s"
  using assms
  by (auto simp: AcquirePage_def Let_def library_call_def split: option.splits)

lemma ReleasePage_calls:
  "ReleasePage h i pg fromCache s = library_call (if fromCache then [] else [EvClosePage pg]) s"
  by (simp add: ReleasePage_def library_call_def)








lemma DiscardCachedPages_effect:
  "DiscardCachedPages h s =
     (library_call (map EvClosePage (map page (cached_pages h s))) s)
       \<lparr>g_pageCache := map_erase h (g_pageCache s)\<rparr>"
proof -
  have absent: "map_erase k m = m" if "map_find k m = None" for k and m :: "'v std_map"
    using that by (induction m) (auto split: if_splits)
  have close: "map (\<lambda>(idx, cp). EvClosePage (page cp)) pages = map EvClosePage (map page (map snd pages))"
    for pages :: "CachedPage std_map"
    by (induction pages) auto
  show ?thesis
    by (cases "map_find h (g_pageCache s)")
       (simp_all add: DiscardCachedPages_def cached_pages_def library_call_def absent close)
qed

lemma CloseDocument_effect:
  assumes "map_find h (g_documents s) = Some doc"
  shows "CloseDocument h s =
           (Inr (),
            (library_call (map EvClosePage (map page (cached_pages h s)) @ [EvCloseDocument doc]) s)
              \<lparr>g_pageCache := map_erase h (g_pageCache s),
               g_documents := map_erase h (g_documents s)\<rparr>)"
  using assms
  by (simp add: CloseDocument_def DiscardCachedPages_effect Let_def library_call_def)


lemma foldl_WriteBlockCallback: "foldl WriteBlockCallback acc blocks = acc @ concat blocks"
  by (induction blocks arbitrary: acc) (simp_all add: WriteBlockCallback_def)

lemma SaveDocument_effect:
  assumes "map_find h (g_documents s) = Some doc" "doc \<noteq> 0"
      and "FlushAndCloseCachedPages L h s = (flushed, s1)"
  shows "SaveDocument L h s =
           (if \<not> flushed then
              (Inl (JsError ''saveDocument: FPDFPage_GenerateContent failed for a dirty page''), s1)
            else
              (if fst (FPDF_SaveAsCopy L (calls s1) doc)
               then Inr (Buffer (concat (snd (FPDF_SaveAsCopy L (calls s1) doc))))
               else Inl (JsError ''saveDocument: FPDF_SaveAsCopy failed''),
               library_call [EvSaveAsCopy doc (fst (FPDF_SaveAsCopy L (calls s1) doc))] s1))"
  using assms
  by (simp add: SaveDocument_def RequireDocument_def Let_def foldl_WriteBlockCallback
           split: prod.splits)

lemma EditTextObject_failure:
  assumes "map_find h (g_documents s) = Some doc" "doc \<noteq> 0"
      and "AcquirePage L h doc i s = (pg, fromCache, s1)" "pg \<noteq> 0"
      and "EditTextObject L h i objectId newText s = (Inl e, s')"
  shows "released_uncached s s1 s' pg fromCache"
proof -
  have s1: "s1 = library_call (if fromCache then [] else [EvLoadPage doc i pg]) s"
    by (rule AcquirePage_cases [OF assms(3)])
  from assms(5) show ?thesis
    by (auto simp: EditTextObject_def RequireDocument_def assms(1-4) Let_def released_uncached_def
                   ReleasePage_calls library_call_def new_calls_def s1
             split: if_splits)
qed

lemma ReplaceImageObject_failure:
  assumes "map_find h (g_documents s) = Some doc" "doc \<noteq> 0"
      and "AcquirePage L h doc i s = (pg, fromCache, s1)" "pg \<noteq> 0"
      and "ReplaceImageObject L h i objectId imageData fmt s = (Inl e, s')"
  shows "released_uncached s s1 s' pg fromCache"
proof -
  have s1: "s1 = library_call (if fromCache then [] else [EvLoadPage doc i pg]) s"
    by (rule AcquirePage_cases [OF assms(3)])
  from assms(5) show ?thesis
    by (auto simp: ReplaceImageObject_def RequireDocument_def assms(1-4) Let_def released_uncached_def
                   ReleasePage_calls library_call_def new_calls_def s1
             split: if_splits)
qed

lemma ReplaceImageObjectBitmap_failure:
  assumes "map_find h (g_documents s) = Some doc" "doc \<noteq> 0"
      and "AcquirePage L h doc i s = (pg, fromCache, s1)" "pg \<noteq> 0"
      and "\<not> int32 (int (length bgraData)) < int32 (width * height * 4)"
      and "ReplaceImageObjectBitmap L h i objectId bgraData width height s = (Inl e, s')"
  shows "released_uncached s s1 s' pg fromCache"
proof -
  have s1: "s1 = library_call (if fromCache then [] else [EvLoadPage doc i pg]) s"
    by (rule AcquirePage_cases [OF assms(3)])
  from assms(6) show ?thesis
    by (auto simp: ReplaceImageObjectBitmap_def RequireDocument_def assms(1-5) Let_def released_uncached_def
                   ReleasePage_calls library_call_def new_calls_def s1
             split: if_splits)
qed


lemma objectId_out_of_range:
  assumes "map_find h (g_documents s) = Some doc" "doc \<noteq> 0"
      and "AcquirePage L h doc i s = (pg, fromCache, s1)" "pg \<noteq> 0"
      and "objectId < 0 \<or> objectId \<ge> FPDFPage_CountObjects L (calls s1) pg"
  shows "EditTextObject L h i objectId newText s =
           (Inl (JsRangeError
              (''editTextObject: objectId '' @ to_string objectId @ '' out of range [0, '' @
               to_string (FPDFPage_CountObjects L (calls s1) pg - 1) @ '']'')),
            ReleasePage h i pg fromCache s1)"
    and "ReplaceImageObject L h i objectId imageData fmt s =
           (Inl (JsRangeError
              (''replaceImageObject: objectId '' @ to_string objectId @ '' out of range [0, '' @
               to_string (FPDFPage_CountObjects L (calls s1) pg - 1) @ '']'')),
            ReleasePage h i pg fromCache s1)"
    and "\<not> int32 (int (length bgraData)) < int32 (width * height * 4) \<Longrightarrow>
         ReplaceImageObjectBitmap L h i objectId bgraData width height s =
           (Inl (JsRangeError
              (''replaceImageObjectBitmap: objectId '' @ to_string objectId @
               '' out of range [0, '' @
               to_string (FPDFPage_CountObjects L (calls s1) pg - 1) @ '']'')),
            ReleasePage h i pg fromCache s1)"
  using assms
  by (auto simp: EditTextObject_def ReplaceImageObject_def ReplaceImageObjectBitmap_def
                 RequireDocument_def Let_def)

lemma ReplaceImageObject_unsupported_format:
  assumes "map_find h (g_documents s) = Some doc" "doc \<noteq> 0"
      and "AcquirePage L h doc i s = (pg, fromCache, s1)" "pg \<noteq> 0"
      and "0 \<le> objectId" "objectId < FPDFPage_CountObjects L (calls s1) pg"
      and "FPDFPageObj_GetType L (calls s1) (FPDFPage_GetObject L (calls s1) pg objectId) =
           FPDF_PAGEOBJ_IMAGE"
      and "fmt \<noteq> ''jpeg''"
  shows "ReplaceImageObject L h i objectId imageData fmt s =
           (Inl (JsError
              (''replaceImageObject: only '' @ [CHR 0x27] @ ''jpeg'' @ [CHR 0x27] @
               '' format is currently supported. '' @
               ''Convert other formats to JPEG before calling this function.'')),
            ReleasePage h i pg fromCache s1)"
  using assms
  by (simp add: ReplaceImageObject_def RequireDocument_def Let_def)

text \<open>How each operation can change the cache.\<close>

lemma all_dirty_iff:
  "all_dirty s =
     (\<forall>h pages i cp. (h, pages) \<in> set (g_pageCache s) \<longrightarrow> (i, cp) \<in> set pages \<longrightarrow> dirty cp)"
  by (auto simp: all_dirty_def list_all_iff)

lemma all_dirty_CachePageDirty: "all_dirty s \<Longrightarrow> all_dirty (CachePageDirty h i pg s)"
proof -
  assume inv: "all_dirty s"
  define pages where "pages = (case map_find h (g_pageCache s) of None \<Rightarrow> [] | Some m \<Rightarrow> m)"
  define pages' where "pages' = map_assign i \<lparr>page = pg, dirty = True\<rparr> pages"
  have old: "dirty cp" if "(j, cp) \<in> set pages" for j cp
  proof (cases "map_find h (g_pageCache s)")
    case None
    with that show ?thesis by (simp add: pages_def)
  next
    case (Some m)
    from map_find_in_set [OF Some] inv that show ?thesis
      unfolding all_dirty_iff pages_def Some by auto
  qed
  have new: "dirty cp" if "(j, cp) \<in> set pages'" for j cp
  proof -
    from that set_map_assign [of i "\<lparr>page = pg, dirty = True\<rparr>" pages]
    have "(j, cp) = (i, \<lparr>page = pg, dirty = True\<rparr>) \<or> (j, cp) \<in> set pages"
      unfolding pages'_def by blast
    then show ?thesis
      using old by auto
  qed
  have cache: "g_pageCache (CachePageDirty h i pg s) = map_assign h pages' (g_pageCache s)"
    by (simp add: CachePageDirty_def pages_def pages'_def Let_def)
  show ?thesis
    unfolding all_dirty_iff cache
  proof (intro allI impI)
    fix h' ps j cp
    assume "(h', ps) \<in> set (map_assign h pages' (g_pageCache s))" and in_ps: "(j, cp) \<in> set ps"
    with set_map_assign [of h pages' "g_pageCache s"]
    have "(h', ps) = (h, pages') \<or> (h', ps) \<in> set (g_pageCache s)"
      by blast
    then show "dirty cp"
      using in_ps new inv unfolding all_dirty_iff by blast
  qed
qed

lemma all_dirty_cache_eq: "g_pageCache s' = g_pageCache s \<Longrightarrow> all_dirty s' = all_dirty s"
  by (simp add: all_dirty_def)

lemma all_dirty_erase:
  assumes "all_dirty s" "g_pageCache s' = map_erase h (g_pageCache s)"
  shows "all_dirty s'"
proof -
  from assms(2) have "set (g_pageCache s') \<subseteq> set (g_pageCache s)"
    by (simp add: set_map_erase)
  with assms(1) show ?thesis
    unfolding all_dirty_iff by blast
qed

lemma all_dirty_empty: "g_pageCache s = [] \<Longrightarrow> all_dirty s"
  by (simp add: all_dirty_def)

text \<open>
  Every exported function leaves the cache as it was, erases the entries of one document,
  empties it, or is \<^verbatim>\<open>CachePageDirty\<close> on the cache as it was.
\<close>

lemma g_pageCache_ReleasePage: "g_pageCache (ReleasePage h i pg fromCache s) = g_pageCache s"
  by (simp add: ReleasePage_def library_call_def)

lemma g_pageCache_AcquirePage:
  "AcquirePage L h doc i s = (pg, fromCache, s1) \<Longrightarrow> g_pageCache s1 = g_pageCache s"
  by (drule AcquirePage_cases) (simp add: library_call_def)

lemma g_pageCache_CachePageDirty:
  "g_pageCache (CachePageDirty h i pg s) =
     map_assign h
       (map_assign i \<lparr>page = pg, dirty = True\<rparr>
          (case map_find h (g_pageCache s) of None \<Rightarrow> [] | Some m \<Rightarrow> m))
       (g_pageCache s)"
  by (simp add: CachePageDirty_def Let_def)

lemma edit_cache_change:
  "g_pageCache (snd (EditTextObject L h i objectId newText s)) = g_pageCache s \<or>
   (\<exists>pg. g_pageCache (snd (EditTextObject L h i objectId newText s)) =
          g_pageCache (CachePageDirty h i pg s))"
proof -
  obtain exc doc where rd: "RequireDocument h s = (exc, doc)"
    by (cases "RequireDocument h s")
  obtain pg fromCache s1 where acq: "AcquirePage L h doc i s = (pg, fromCache, s1)"
    by (cases "AcquirePage L h doc i s") auto
  note cache = g_pageCache_AcquirePage [OF acq]
  have "g_pageCache (snd (EditTextObject L h i objectId newText s)) = g_pageCache s \<or>
        g_pageCache (snd (EditTextObject L h i objectId newText s)) =
          g_pageCache (CachePageDirty h i pg s)"
    by (simp add: EditTextObject_def rd acq Let_def g_pageCache_ReleasePage
          g_pageCache_library_call cache g_pageCache_CachePageDirty)
  then show ?thesis
    by blast
qed

lemma replace_cache_change:
  "g_pageCache (snd (ReplaceImageObject L h i objectId imageData fmt s)) = g_pageCache s \<or>
   (\<exists>pg. g_pageCache (snd (ReplaceImageObject L h i objectId imageData fmt s)) =
          g_pageCache (CachePageDirty h i pg s))"
proof -
  obtain exc doc where rd: "RequireDocument h s = (exc, doc)"
    by (cases "RequireDocument h s")
  obtain pg fromCache s1 where acq: "AcquirePage L h doc i s = (pg, fromCache, s1)"
    by (cases "AcquirePage L h doc i s") auto
  note cache = g_pageCache_AcquirePage [OF acq]
  have "g_pageCache (snd (ReplaceImageObject L h i objectId imageData fmt s)) = g_pageCache s \<or>
        g_pageCache (snd (ReplaceImageObject L h i objectId imageData fmt s)) =
          g_pageCache (CachePageDirty h i pg s)"
    by (simp add: ReplaceImageObject_def rd acq Let_def g_pageCache_ReleasePage
          g_pageCache_library_call cache g_pageCache_CachePageDirty)
  then show ?thesis
    by blast
qed

lemma bitmap_cache_change:
  "g_pageCache (snd (ReplaceImageObjectBitmap L h i objectId bgraData width height s)) =
     g_pageCache s \<or>
   (\<exists>pg. g_pageCache (snd (ReplaceImageObjectBitmap L h i objectId bgraData width height s)) =
          g_pageCache (CachePageDirty h i pg s))"
proof -
  obtain exc doc where rd: "RequireDocument h s = (exc, doc)"
    by (cases "RequireDocument h s")
  obtain pg fromCache s1 where acq: "AcquirePage L h doc i s = (pg, fromCache, s1)"
    by (cases "AcquirePage L h doc i s") auto
  note cache = g_pageCache_AcquirePage [OF acq]
  have "g_pageCache (snd (ReplaceImageObjectBitmap L h i objectId bgraData width height s)) =
          g_pageCache s \<or>
        g_pageCache (snd (ReplaceImageObjectBitmap L h i objectId bgraData width height s)) =
          g_pageCache (CachePageDirty h i pg s)"
    by (simp add: ReplaceImageObjectBitmap_def rd acq Let_def g_pageCache_ReleasePage
          g_pageCache_library_call cache g_pageCache_CachePageDirty)
  then show ?thesis
    by blast
qed

lemma render_cache_change:
  "g_pageCache (snd (RenderPage L h i scale s)) = g_pageCache s"
proof -
  obtain exc doc where rd: "RequireDocument h s = (exc, doc)"
    by (cases "RequireDocument h s")
  obtain pg fromCache s1 where acq: "AcquirePage L h doc i s = (pg, fromCache, s1)"
    by (cases "AcquirePage L h doc i s") auto
  note cache = g_pageCache_AcquirePage [OF acq]
  show ?thesis
    by (simp add: RenderPage_def rd acq Let_def g_pageCache_ReleasePage
          g_pageCache_library_call cache)
qed

lemma list_cache_change:
  "g_pageCache (snd (ListPageObjects L h i s)) = g_pageCache s"
proof -
  obtain exc doc where rd: "RequireDocument h s = (exc, doc)"
    by (cases "RequireDocument h s")
  obtain pg fromCache s1 where acq: "AcquirePage L h doc i s = (pg, fromCache, s1)"
    by (cases "AcquirePage L h doc i s") auto
  note cache = g_pageCache_AcquirePage [OF acq]
  show ?thesis
    by (simp add: ListPageObjects_def rd acq Let_def g_pageCache_ReleasePage
          g_pageCache_library_call cache)
qed

lemma open_cache_change:
  "g_pageCache (snd (OpenDocument L buffer password s)) = g_pageCache s"
  by (simp add: OpenDocument_def Let_def library_call_def)

lemma count_cache_change:
  "g_pageCache (snd (GetPageCount L h s)) = g_pageCache s"
  by (simp add: GetPageCount_def split: prod.splits)

lemma flush_cache_change:
  "g_pageCache (snd (FlushAndCloseCachedPages L h s)) = map_erase h (g_pageCache s)"
proof -
  obtain r s' where run: "FlushAndCloseCachedPages L h s = (r, s')"
    by (cases "FlushAndCloseCachedPages L h s")
  from FlushAndCloseCachedPages_effect [OF run] show ?thesis
    by (auto simp: run)
qed

lemma save_cache_change:
  "g_pageCache (snd (SaveDocument L h s)) = g_pageCache s \<or>
   g_pageCache (snd (SaveDocument L h s)) = map_erase h (g_pageCache s)"
  using flush_cache_change [of L h s]
  by (auto simp: SaveDocument_def Let_def library_call_def split: prod.splits)

lemma close_cache_change:
  "g_pageCache (snd (CloseDocument h s)) = g_pageCache s \<or>
   g_pageCache (snd (CloseDocument h s)) = map_erase h (g_pageCache s)"
  by (cases "map_find h (g_documents s)") (simp_all add: CloseDocument_effect, simp add: CloseDocument_def)

lemma cleanup_cache_change: "g_pageCache (Cleanup s) = []"
  by (simp add: Cleanup_def Let_def library_call_def)

lemma snd_void_result: "snd (void_result r) = snd r"
  by (cases r) (auto simp: void_result_def split: sum.splits)

lemma cache_step_same: "g_pageCache s' = g_pageCache s \<Longrightarrow> cache_step s s'"
  by (simp add: cache_step_def)

lemma cache_step_refl: "cache_step s s"
  by (simp add: cache_step_def)

lemma cache_step_void: "cache_step s (snd (void_result r)) = cache_step s (snd r)"
  by (simp add: snd_void_result)

lemma OpenDocument_napi_step: "cache_step s (snd (OpenDocument_napi L info s))"
  by (rule cache_step_same)
     (simp add: OpenDocument_napi_def Let_def open_cache_change EnsurePdfiumInit_def
        library_call_def)

lemma CloseDocument_napi_step: "cache_step s (snd (CloseDocument_napi L info s))"
  using close_cache_change [of "Int32Value_of L (arg info 0)" s]
  by (auto simp: CloseDocument_napi_def cache_step_def)

lemma GetPageCount_napi_step: "cache_step s (snd (GetPageCount_napi L info s))"
  by (rule cache_step_same) (simp add: GetPageCount_napi_def count_cache_change)

lemma SaveDocument_napi_step: "cache_step s (snd (SaveDocument_napi L info s))"
  using save_cache_change [of L "Int32Value_of L (arg info 0)" s]
  by (auto simp: SaveDocument_napi_def cache_step_def)

lemma RenderPage_napi_step: "cache_step s (snd (RenderPage_napi L info s))"
  by (rule cache_step_same)
     (simp add: RenderPage_napi_def render_cache_change split: bool.splits js_value.splits)

lemma ListPageObjects_napi_step: "cache_step s (snd (ListPageObjects_napi L info s))"
  by (rule cache_step_same) (simp add: ListPageObjects_napi_def list_cache_change)

lemma EditTextObject_napi_step: "cache_step s (snd (EditTextObject_napi L info s))"
  using edit_cache_change [of L "Int32Value_of L (arg info 0)" "Int32Value_of L (arg info 1)"
      "Int32Value_of L (arg info 2)" "Utf16Value (arg info 3)" s]
  unfolding EditTextObject_napi_def cache_step_def
  by (cases "length info < 4 \<or> \<not> IsNumber (arg info 0) \<or> \<not> IsNumber (arg info 1) \<or>
         \<not> IsNumber (arg info 2) \<or> \<not> IsString (arg info 3)") (simp, simp, blast)

lemma ReplaceImageObject_napi_step: "cache_step s (snd (ReplaceImageObject_napi L info s))"
  using replace_cache_change [of L "Int32Value_of L (arg info 0)" "Int32Value_of L (arg info 1)"
      "Int32Value_of L (arg info 2)" "buffer_data (arg info 3)"
      "Utf8Value L (Utf16Value (arg info 4))" s]
  unfolding ReplaceImageObject_napi_def cache_step_def
  by (cases "length info < 5 \<or> \<not> IsNumber (arg info 0) \<or> \<not> IsNumber (arg info 1) \<or>
         \<not> IsNumber (arg info 2) \<or> \<not> IsBuffer (arg info 3) \<or> \<not> IsString (arg info 4)")
     (simp, simp, blast)

lemma ReplaceImageObjectBitmap_napi_step:
  "cache_step s (snd (ReplaceImageObjectBitmap_napi L info s))"
  using bitmap_cache_change [of L "Int32Value_of L (arg info 0)" "Int32Value_of L (arg info 1)"
      "Int32Value_of L (arg info 2)" "buffer_data (arg info 3)"
      "Int32Value_of L (arg info 4)" "Int32Value_of L (arg info 5)" s]
  unfolding ReplaceImageObjectBitmap_napi_def cache_step_def
  by (cases "length info < 6 \<or> \<not> IsNumber (arg info 0) \<or> \<not> IsNumber (arg info 1) \<or>
         \<not> IsNumber (arg info 2) \<or> \<not> IsBuffer (arg info 3) \<or> \<not> IsNumber (arg info 4) \<or>
         \<not> IsNumber (arg info 5)")
     (simp, simp, blast)

lemma invoke_cache_step: "cache_step s (snd (invoke L c s))"
proof (cases c)
  case (Call f info)
  then show ?thesis
    by (cases f)
       (simp_all add: cache_step_void OpenDocument_napi_step CloseDocument_napi_step
          GetPageCount_napi_step SaveDocument_napi_step RenderPage_napi_step
          ListPageObjects_napi_step EditTextObject_napi_step ReplaceImageObject_napi_step
          ReplaceImageObjectBitmap_napi_step)
next
  case Cleanup_hook
  then show ?thesis
    by (simp add: cache_step_def cleanup_cache_change)
qed

lemma all_dirty_cache_step:
  assumes "all_dirty s" "cache_step s s'"
  shows "all_dirty s'"
  using assms(2) unfolding cache_step_def
proof (elim disjE exE)
  assume "g_pageCache s' = g_pageCache s"
  with assms(1) show ?thesis
    by (simp add: all_dirty_cache_eq [of s' s])
next
  assume "g_pageCache s' = []"
  then show ?thesis
    by (rule all_dirty_empty)
next
  fix h
  assume "g_pageCache s' = map_erase h (g_pageCache s)"
  with assms(1) show ?thesis
    by (rule all_dirty_erase)
next
  fix h i pg
  assume "g_pageCache s' = g_pageCache (CachePageDirty h i pg s)"
  then have "all_dirty s' = all_dirty (CachePageDirty h i pg s)"
    by (rule all_dirty_cache_eq)
  with all_dirty_CachePageDirty [OF assms(1)] show ?thesis
    by simp
qed

lemma all_dirty_invoke:
  assumes "all_dirty s"
  shows "all_dirty (snd (invoke L c s))"
  using assms invoke_cache_step by (rule all_dirty_cache_step)

lemma all_dirty_run: "all_dirty s \<Longrightarrow> all_dirty (run L cs s)"
  unfolding run_def
  by (induction cs arbitrary: s) (simp_all add: all_dirty_invoke)

text \<open>The demo states, evaluated.\<close>


lemmas demo_defs =
  run_def demo_pdfium_def initial_def OpenDocument_def EnsurePdfiumInit_def
  library_call_def EditTextObject_def ReplaceImageObject_def RequireDocument_def AcquirePage_def
  CachePageDirty_def void_result_def FPDF_PAGEOBJ_TEXT_def FPDF_PAGEOBJ_IMAGE_def
  BufferReadBlock_def OpenDocument_napi_def EditTextObject_napi_def ReplaceImageObject_napi_def
  arg_def int32_def c_str_def

lemma jpeg_chars:
  "char_of (106 :: nat) = CHR ''j''" "char_of (112 :: nat) = CHR ''p''"
  "char_of (101 :: nat) = CHR ''e''" "char_of (103 :: nat) = CHR ''g''"
  by code_simp+

lemma demo_opened_value:
  "demo_opened g sv =
     \<lparr>g_documents = [(1, 101)], g_pageCache = [], g_nextHandle = 2, g_initialized = True,
      calls = [EvInitLibrary, EvLoadMemDocument [37] None 101]\<rparr>"
  by (simp add: demo_opened_def demo_defs)

lemma demo_edited_value:
  "demo_edited g sv =
     \<lparr>g_documents = [(1, 101)],
      g_pageCache = [(1, [(0, \<lparr>page = 204, dirty = True\<rparr>), (1, \<lparr>page = 202, dirty = True\<rparr>)])],
      g_nextHandle = 2, g_initialized = True,
      calls = [EvInitLibrary, EvLoadMemDocument [37] None 101, EvLoadPage 101 1 202,
               EvSetText 202 300 [72, 105] True, EvLoadPage 101 0 204,
               EvLoadJpegFileInline 204 301 True]\<rparr>"
  by (simp add: demo_edited_def demo_defs jpeg_chars)


lemma demo_flush_run:
  "FlushAndCloseCachedPages (demo_pdfium g sv) 1 (demo_edited g sv) = (g, demo_flushed g sv)"
  by (simp add: demo_flushed_def demo_edited_value FlushAndCloseCachedPages_def library_call_def
        demo_pdfium_def Let_def)


lemma demo_edited_pages:
  "cached_pages 1 (demo_edited g sv) =
     [\<lparr>page = 204, dirty = True\<rparr>, \<lparr>page = 202, dirty = True\<rparr>]"
  by (simp add: cached_pages_def demo_edited_value)



lemma demo_SaveAsCopy:
  "FPDF_SaveAsCopy (demo_pdfium g sv) hist doc =
     (sv, if sv then [[0x25, 0x50], [0x44, 0x46]] else [])"
  by (simp add: demo_pdfium_def)

lemma demo_edited_valid: "map_find 1 (g_documents (demo_edited g sv)) = Some 101"
  by (simp add: demo_edited_value)

lemma demo_save_run:
  "SaveDocument (demo_pdfium g sv) 1 (demo_edited g sv) =
     (if \<not> g then Inl (JsError ''saveDocument: FPDFPage_GenerateContent failed for a dirty page'')
      else if \<not> sv then Inl (JsError ''saveDocument: FPDF_SaveAsCopy failed'')
      else Inr (Buffer [0x25, 0x50, 0x44, 0x46]),
      demo_saved g sv)"
  unfolding demo_saved_def
  by (simp add: SaveDocument_effect [OF demo_edited_valid _ demo_flush_run] demo_SaveAsCopy)



lemma demo_closed_value:
  "demo_closed g sv =
     \<lparr>g_documents = [], g_pageCache = [], g_nextHandle = 2, g_initialized = True,
      calls = [EvInitLibrary, EvLoadMemDocument [37] None 101, EvLoadPage 101 1 202,
               EvSetText 202 300 [72, 105] True, EvLoadPage 101 0 204,
               EvLoadJpegFileInline 204 301 True,
               EvClosePage 204, EvClosePage 202, EvCloseDocument 101]\<rparr>"
  by (simp add: demo_closed_def CloseDocument_def DiscardCachedPages_def demo_edited_value
        library_call_def Let_def)


lemma to_string_1: "to_string 1 = ''1''"
  by (simp add: to_string_def to_digits.simps)


lemma demo_edited_calls:
  "calls (demo_edited g sv) =
     [EvInitLibrary, EvLoadMemDocument [37] None 101, EvLoadPage 101 1 202,
      EvSetText 202 300 [72, 105] True, EvLoadPage 101 0 204,
      EvLoadJpegFileInline 204 301 True]"
  by (simp add: demo_edited_value)

lemma demo_closed_calls:
  "calls (demo_closed g sv) =
     [EvInitLibrary, EvLoadMemDocument [37] None 101, EvLoadPage 101 1 202,
      EvSetText 202 300 [72, 105] True, EvLoadPage 101 0 204,
      EvLoadJpegFileInline 204 301 True,
      EvClosePage 204, EvClosePage 202, EvCloseDocument 101]"
  by (simp add: demo_closed_value)

lemma demo_LoadPage:
  "FPDF_LoadPage (demo_pdfium g sv) hist doc i = (if 0 \<le> i \<and> i < 2 then 200 + length hist else 0)"
  by (simp add: demo_pdfium_def)

lemma demo_CountObjects: "FPDFPage_CountObjects (demo_pdfium g sv) hist pg = 2"
  by (simp add: demo_pdfium_def)

lemma demo_GetType:
  "FPDFPageObj_GetType (demo_pdfium g sv) hist (FPDFPage_GetObject (demo_pdfium g sv) hist pg i) =
     (if nat i = 0 then FPDF_PAGEOBJ_TEXT else FPDF_PAGEOBJ_IMAGE)"
  by (simp add: demo_pdfium_def)

lemma demo_opened_valid: "map_find 1 (g_documents (demo_opened g sv)) = Some 101"
  by (simp add: demo_opened_value)

lemma demo_opened_acquire:
  "AcquirePage (demo_pdfium g sv) 1 101 0 (demo_opened g sv) =
     (202, False, library_call [EvLoadPage 101 0 202] (demo_opened g sv))"
  by (simp add: AcquirePage_def demo_LoadPage demo_opened_value)

lemma demo_edited_acquire:
  "AcquirePage (demo_pdfium g sv) 1 101 0 (demo_edited g sv) = (204, True, demo_edited g sv)"
  by (simp add: AcquirePage_def demo_edited_value)

lemma to_string_5: "to_string 5 = ''5''"
  by (simp add: to_string_def to_digits.simps)

lemma cache_entry_CachePageDirty:
  "cache_entry h i (CachePageDirty h i pg s) = Some \<lparr>page = pg, dirty = True\<rparr>"
  by (simp add: cache_entry_def g_pageCache_CachePageDirty map_find_assign_same)

lemma cache_entry_cong: "g_pageCache s' = g_pageCache s \<Longrightarrow> cache_entry h i s' = cache_entry h i s"
  by (simp add: cache_entry_def)

lemma edit_success_cached:
  assumes "map_find h (g_documents s) = Some doc" "doc \<noteq> 0"
  shows "EditTextObject L h i objectId newText s = (Inr u, s') \<Longrightarrow>
           \<exists>pg. cache_entry h i s' = Some \<lparr>page = pg, dirty = True\<rparr>"
    and "ReplaceImageObject L h i objectId imageData fmt s = (Inr u, s') \<Longrightarrow>
           \<exists>pg. cache_entry h i s' = Some \<lparr>page = pg, dirty = True\<rparr>"
    and "ReplaceImageObjectBitmap L h i objectId bgraData width height s = (Inr u, s') \<Longrightarrow>
           \<exists>pg. cache_entry h i s' = Some \<lparr>page = pg, dirty = True\<rparr>"
proof -
  obtain pg fromCache s1 where acq: "AcquirePage L h doc i s = (pg, fromCache, s1)"
    by (cases "AcquirePage L h doc i s") auto
  show "\<exists>pg. cache_entry h i s' = Some \<lparr>page = pg, dirty = True\<rparr>"
    if "EditTextObject L h i objectId newText s = (Inr u, s')"
    using that
    by (auto simp: EditTextObject_def RequireDocument_def assms acq Let_def
                   cache_entry_CachePageDirty split: if_splits)
  show "\<exists>pg. cache_entry h i s' = Some \<lparr>page = pg, dirty = True\<rparr>"
    if "ReplaceImageObject L h i objectId imageData fmt s = (Inr u, s')"
    using that
    by (auto simp: ReplaceImageObject_def RequireDocument_def assms acq Let_def
                   cache_entry_CachePageDirty split: if_splits)
  show "\<exists>pg. cache_entry h i s' = Some \<lparr>page = pg, dirty = True\<rparr>"
    if "ReplaceImageObjectBitmap L h i objectId bgraData width height s = (Inr u, s')"
    using that
    by (auto simp: ReplaceImageObjectBitmap_def RequireDocument_def assms acq Let_def
                   cache_entry_CachePageDirty split: if_splits)
qed

lemma all_dirty_entry:
  assumes "all_dirty s" "cache_entry h i s = Some cp"
  shows "dirty cp"
proof -
  from assms(2) obtain pages where
    "map_find h (g_pageCache s) = Some pages" "map_find i pages = Some cp"
    by (auto simp: cache_entry_def split: option.splits)
  then have "(h, pages) \<in> set (g_pageCache s)" "(i, cp) \<in> set pages"
    by (auto dest: map_find_in_set)
  with assms(1) show ?thesis
    unfolding all_dirty_iff by blast
qed

lemma all_dirty_cached_pages:
  assumes "all_dirty s"
  shows "filter dirty (cached_pages h s) = cached_pages h s"
proof (cases "map_find h (g_pageCache s)")
  case None
  then show ?thesis by (simp add: cached_pages_def)
next
  case (Some pages)
  from map_find_in_set [OF Some] assms have "\<forall>(i, cp) \<in> set pages. dirty cp"
    unfolding all_dirty_iff by blast
  then have "\<forall>cp \<in> set (map snd pages). dirty cp"
    by auto
  then show ?thesis
    by (simp add: cached_pages_def Some)
qed

lemma demo_edited_run:
  "run (demo_pdfium True True)
     [Call openDocument [Buffer [0x25]],
      Call editTextObject [Number 1, Number 1, Number 0, String [0x48, 0x69]],
      Call replaceImageObject
        [Number 1, Number 0, Number 1, Buffer [0xFF, 0xD8], String [0x6A, 0x70, 0x65, 0x67]]]
     initial = demo_edited True True"
  by (simp add: demo_edited_def)

section \<open>Well-formed tables\<close>

lemma keys_map_assign: "set (map fst (map_assign k v m)) = insert k (set (map fst m))"
  by (induction m) (simp, force)

lemma keys_map_erase: "set (map fst (map_erase k m)) = set (map fst m) - {k}"
  by (induction m) (simp, force)

lemma ascending_Cons:
  "ascending ((k, v) # m) = ((\<forall>k' \<in> set (map fst m). k < k') \<and> ascending m)"
  by (simp add: ascending_def)

lemma ascending_assign: "ascending m \<Longrightarrow> ascending (map_assign k v m)"
proof (induction m)
  case Nil
  then show ?case by (simp add: ascending_def)
next
  case (Cons e m)
  obtain k' v' where e: "e = (k', v')" by (cases e)
  from Cons.prems have tail: "\<forall>j \<in> set (map fst m). k' < j" "ascending m"
    by (simp_all add: e ascending_Cons)
  show ?case
  proof (cases "k < k'")
    case True
    with tail show ?thesis
      by (auto simp: e ascending_Cons)
  next
    case False
    show ?thesis
    proof (cases "k = k'")
      case True
      with tail show ?thesis
        by (simp add: e ascending_Cons)
    next
      case False
      with \<open>\<not> k < k'\<close> have "k' < k" by simp
      with tail Cons.IH [OF tail(2)] False show ?thesis
        by (simp add: e ascending_Cons keys_map_assign del: set_map)
    qed
  qed
qed

lemma ascending_erase: "ascending m \<Longrightarrow> ascending (map_erase k m)"
proof (induction m)
  case Nil
  then show ?case by simp
next
  case (Cons e m)
  obtain k' v' where e: "e = (k', v')" by (cases e)
  from Cons.prems have tail: "\<forall>j \<in> set (map fst m). k' < j" "ascending m"
    by (simp_all add: e ascending_Cons)
  with Cons.IH [OF tail(2)] show ?case
    by (cases "k = k'") (simp_all add: e ascending_Cons keys_map_erase del: set_map)
qed

lemma map_find_None_iff: "(map_find k m = None) = (k \<notin> set (map fst m))"
  by (induction m) (simp, force)

text \<open>
  In an ascending table no key occurs twice, so that \<open>map_find\<close> finds the one entry of
  a key and \<open>map_erase\<close> erases it, as \<^verbatim>\<open>find\<close> and \<^verbatim>\<open>erase\<close> do.
\<close>

lemma ascending_distinct: "ascending m \<Longrightarrow> distinct (map fst m)"
  unfolding ascending_def sorted_wrt_map
  by (induction m) (auto simp: sorted_wrt_map)


lemma well_formed_initial: "well_formed initial"
  by (simp add: well_formed_def initial_def ascending_def)

lemma well_formed_valid_handle:
  assumes "well_formed s" "map_find h (g_documents s) = Some doc"
  shows "doc \<noteq> 0"
  using assms map_find_in_set [OF assms(2)]
  by (auto simp: well_formed_def list_all_iff)

lemma well_formed_cong:
  "g_documents s' = g_documents s \<Longrightarrow> g_pageCache s' = g_pageCache s \<Longrightarrow>
   well_formed s' = well_formed s"
  by (simp add: well_formed_def)

lemma well_formed_CachePageDirty:
  assumes "well_formed s" "map_find h (g_documents s) \<noteq> None"
  shows "well_formed (CachePageDirty h i pg s)"
proof -
  define pages where "pages = (case map_find h (g_pageCache s) of None \<Rightarrow> [] | Some m \<Rightarrow> m)"
  define pages' where "pages' = map_assign i \<lparr>page = pg, dirty = True\<rparr> pages"
  have "ascending pages"
  proof (cases "map_find h (g_pageCache s)")
    case None
    then show ?thesis by (simp add: pages_def ascending_def)
  next
    case (Some m)
    from map_find_in_set [OF Some] assms(1) show ?thesis
      by (auto simp: pages_def Some well_formed_def list_all_iff)
  qed
  then have pages': "ascending pages'"
    unfolding pages'_def by (rule ascending_assign)
  have cache: "g_pageCache (CachePageDirty h i pg s) = map_assign h pages' (g_pageCache s)"
    and docs: "g_documents (CachePageDirty h i pg s) = g_documents s"
    by (simp_all add: CachePageDirty_def pages_def pages'_def Let_def)
  have "ascending hp \<and> map_find k (g_documents s) \<noteq> None"
    if "(k, hp) \<in> set (map_assign h pages' (g_pageCache s))" for k hp
  proof -
    from that set_map_assign [of h pages' "g_pageCache s"]
    have "(k, hp) = (h, pages') \<or> (k, hp) \<in> set (g_pageCache s)"
      by blast
    then show ?thesis
      using pages' assms by (auto simp: well_formed_def list_all_iff)
  qed
  with assms(1) show ?thesis
    by (auto simp: well_formed_def cache docs ascending_assign list_all_iff)
qed

lemma well_formed_erase:
  assumes "well_formed s"
      and "g_pageCache s' = map_erase h (g_pageCache s)"
      and "g_documents s' = g_documents s \<or> g_documents s' = map_erase h (g_documents s)"
  shows "well_formed s'"
proof -
  have cache: "ascending hp \<and> map_find k (g_documents s) \<noteq> None \<and> k \<noteq> h"
    if "(k, hp) \<in> set (g_pageCache s')" for k hp
  proof -
    from that have "k \<in> set (map fst (map_erase h (g_pageCache s)))"
      by (force simp: assms(2))
    then have "k \<noteq> h"
      by (simp add: keys_map_erase del: set_map)
    moreover from that set_map_erase [of h "g_pageCache s"] have "(k, hp) \<in> set (g_pageCache s)"
      by (auto simp: assms(2))
    ultimately show ?thesis
      using assms(1) by (auto simp: well_formed_def list_all_iff)
  qed
  have docs: "ascending (g_documents s')" "list_all (\<lambda>(h, doc). doc \<noteq> 0) (g_documents s')"
    using assms(1,3) set_map_erase [of h "g_documents s"]
    by (auto simp: well_formed_def ascending_erase list_all_iff)
  have open_docs: "map_find k (g_documents s') \<noteq> None"
    if "map_find k (g_documents s) \<noteq> None" "k \<noteq> h" for k
    using that assms(3) by (auto simp: map_find_erase_other)
  from assms(1) have "ascending (g_pageCache s')"
    by (simp add: assms(2) well_formed_def ascending_erase)
  with docs cache open_docs show ?thesis
    by (fastforce simp: well_formed_def list_all_iff)
qed

text \<open>What each function does to the two tables.\<close>

lemma g_documents_ReleasePage: "g_documents (ReleasePage h i pg fromCache s) = g_documents s"
  by (simp add: ReleasePage_def library_call_def)

lemma g_documents_AcquirePage:
  "AcquirePage L h doc i s = (pg, fromCache, s1) \<Longrightarrow> g_documents s1 = g_documents s"
  by (drule AcquirePage_cases) (simp add: library_call_def)

lemma g_documents_CachePageDirty: "g_documents (CachePageDirty h i pg s) = g_documents s"
  by (simp add: CachePageDirty_def Let_def)

lemma RequireDocument_found:
  "RequireDocument h s = (exc, doc) \<Longrightarrow> doc \<noteq> 0 \<Longrightarrow> map_find h (g_documents s) \<noteq> None"
  by (auto simp: RequireDocument_def split: option.splits)

lemma EditTextObject_tables:
  "g_documents (snd (EditTextObject L h i objectId newText s)) = g_documents s \<and>
   (g_pageCache (snd (EditTextObject L h i objectId newText s)) = g_pageCache s \<or>
    map_find h (g_documents s) \<noteq> None \<and>
    (\<exists>pg. g_pageCache (snd (EditTextObject L h i objectId newText s)) =
           g_pageCache (CachePageDirty h i pg s)))"
proof -
  obtain exc doc where rd: "RequireDocument h s = (exc, doc)"
    by (cases "RequireDocument h s")
  obtain pg fromCache s1 where acq: "AcquirePage L h doc i s = (pg, fromCache, s1)"
    by (cases "AcquirePage L h doc i s") auto
  note cache = g_pageCache_AcquirePage [OF acq] and docs = g_documents_AcquirePage [OF acq]
  have "g_documents (snd (EditTextObject L h i objectId newText s)) = g_documents s"
    by (simp add: EditTextObject_def rd acq Let_def g_documents_ReleasePage
          g_documents_library_call docs g_documents_CachePageDirty)
  moreover have "g_pageCache (snd (EditTextObject L h i objectId newText s)) = g_pageCache s \<or>
      doc \<noteq> 0 \<and> g_pageCache (snd (EditTextObject L h i objectId newText s)) =
        g_pageCache (CachePageDirty h i pg s)"
    by (simp add: EditTextObject_def rd acq Let_def g_pageCache_ReleasePage
          g_pageCache_library_call cache g_pageCache_CachePageDirty)
  ultimately show ?thesis
    using RequireDocument_found [OF rd] by blast
qed

lemma ReplaceImageObject_tables:
  "g_documents (snd (ReplaceImageObject L h i objectId imageData fmt s)) = g_documents s \<and>
   (g_pageCache (snd (ReplaceImageObject L h i objectId imageData fmt s)) = g_pageCache s \<or>
    map_find h (g_documents s) \<noteq> None \<and>
    (\<exists>pg. g_pageCache (snd (ReplaceImageObject L h i objectId imageData fmt s)) =
           g_pageCache (CachePageDirty h i pg s)))"
proof -
  obtain exc doc where rd: "RequireDocument h s = (exc, doc)"
    by (cases "RequireDocument h s")
  obtain pg fromCache s1 where acq: "AcquirePage L h doc i s = (pg, fromCache, s1)"
    by (cases "AcquirePage L h doc i s") auto
  note cache = g_pageCache_AcquirePage [OF acq] and docs = g_documents_AcquirePage [OF acq]
  have "g_documents (snd (ReplaceImageObject L h i objectId imageData fmt s)) = g_documents s"
    by (simp add: ReplaceImageObject_def rd acq Let_def g_documents_ReleasePage
          g_documents_library_call docs g_documents_CachePageDirty)
  moreover have
    "g_pageCache (snd (ReplaceImageObject L h i objectId imageData fmt s)) = g_pageCache s \<or>
     doc \<noteq> 0 \<and> g_pageCache (snd (ReplaceImageObject L h i objectId imageData fmt s)) =
        g_pageCache (CachePageDirty h i pg s)"
    by (simp add: ReplaceImageObject_def rd acq Let_def g_pageCache_ReleasePage
          g_pageCache_library_call cache g_pageCache_CachePageDirty)
  ultimately show ?thesis
    using RequireDocument_found [OF rd] by blast
qed

lemma ReplaceImageObjectBitmap_tables:
  "g_documents (snd (ReplaceImageObjectBitmap L h i objectId bgraData width height s)) =
     g_documents s \<and>
   (g_pageCache (snd (ReplaceImageObjectBitmap L h i objectId bgraData width height s)) =
      g_pageCache s \<or>
    map_find h (g_documents s) \<noteq> None \<and>
    (\<exists>pg. g_pageCache (snd (ReplaceImageObjectBitmap L h i objectId bgraData width height s)) =
           g_pageCache (CachePageDirty h i pg s)))"
proof -
  obtain exc doc where rd: "RequireDocument h s = (exc, doc)"
    by (cases "RequireDocument h s")
  obtain pg fromCache s1 where acq: "AcquirePage L h doc i s = (pg, fromCache, s1)"
    by (cases "AcquirePage L h doc i s") auto
  note cache = g_pageCache_AcquirePage [OF acq] and docs = g_documents_AcquirePage [OF acq]
  have "g_documents (snd (ReplaceImageObjectBitmap L h i objectId bgraData width height s)) =
          g_documents s"
    by (simp add: ReplaceImageObjectBitmap_def rd acq Let_def g_documents_ReleasePage
          g_documents_library_call docs g_documents_CachePageDirty)
  moreover have
    "g_pageCache (snd (ReplaceImageObjectBitmap L h i objectId bgraData width height s)) =
       g_pageCache s \<or>
     doc \<noteq> 0 \<and>
     g_pageCache (snd (ReplaceImageObjectBitmap L h i objectId bgraData width height s)) =
        g_pageCache (CachePageDirty h i pg s)"
    by (simp add: ReplaceImageObjectBitmap_def rd acq Let_def g_pageCache_ReleasePage
          g_pageCache_library_call cache g_pageCache_CachePageDirty)
  ultimately show ?thesis
    using RequireDocument_found [OF rd] by blast
qed

lemma well_formed_edit:
  assumes "well_formed s"
      and "g_documents s' = g_documents s \<and>
           (g_pageCache s' = g_pageCache s \<or>
            map_find h (g_documents s) \<noteq> None \<and>
            (\<exists>pg. g_pageCache s' = g_pageCache (CachePageDirty h i pg s)))"
  shows "well_formed s'"
proof -
  from assms(2) consider "g_documents s' = g_documents s" "g_pageCache s' = g_pageCache s"
    | pg where "g_documents s' = g_documents s" "map_find h (g_documents s) \<noteq> None"
        "g_pageCache s' = g_pageCache (CachePageDirty h i pg s)"
    by blast
  then show ?thesis
  proof cases
    case 1
    with assms(1) show ?thesis
      by (simp add: well_formed_cong [of s' s])
  next
    case 2
    then have "well_formed s' = well_formed (CachePageDirty h i pg s)"
      by (intro well_formed_cong) (simp_all add: g_documents_CachePageDirty)
    with well_formed_CachePageDirty [OF assms(1) 2(2)] show ?thesis
      by simp
  qed
qed

lemma g_documents_RenderPage: "g_documents (snd (RenderPage L h i scale s)) = g_documents s"
proof -
  obtain exc doc where rd: "RequireDocument h s = (exc, doc)"
    by (cases "RequireDocument h s")
  obtain pg fromCache s1 where acq: "AcquirePage L h doc i s = (pg, fromCache, s1)"
    by (cases "AcquirePage L h doc i s") auto
  note docs = g_documents_AcquirePage [OF acq]
  show ?thesis
    by (simp add: RenderPage_def rd acq Let_def g_documents_ReleasePage
          g_documents_library_call docs)
qed

lemma g_documents_ListPageObjects: "g_documents (snd (ListPageObjects L h i s)) = g_documents s"
proof -
  obtain exc doc where rd: "RequireDocument h s = (exc, doc)"
    by (cases "RequireDocument h s")
  obtain pg fromCache s1 where acq: "AcquirePage L h doc i s = (pg, fromCache, s1)"
    by (cases "AcquirePage L h doc i s") auto
  note docs = g_documents_AcquirePage [OF acq]
  show ?thesis
    by (simp add: ListPageObjects_def rd acq Let_def g_documents_ReleasePage
          g_documents_library_call docs)
qed

lemma g_documents_SaveDocument: "g_documents (snd (SaveDocument L h s)) = g_documents s"
proof -
  obtain r s1 where run: "FlushAndCloseCachedPages L h s = (r, s1)"
    by (cases "FlushAndCloseCachedPages L h s")
  from FlushAndCloseCachedPages_effect [OF run] have "g_documents s1 = g_documents s"
    by (auto simp: library_call_def)
  then show ?thesis
    by (simp add: SaveDocument_def run Let_def library_call_def split: prod.splits)
qed

lemma well_formed_OpenDocument:
  assumes "well_formed s"
  shows "well_formed (snd (OpenDocument L buffer password s))"
proof -
  define doc where
    "doc = FPDF_LoadMemDocument L (calls s) buffer (int32 (int (length buffer))) password"
  show ?thesis
  proof (cases "doc = 0")
    case True
    then have "g_documents (snd (OpenDocument L buffer password s)) = g_documents s"
      "g_pageCache (snd (OpenDocument L buffer password s)) = g_pageCache s"
      by (simp_all add: OpenDocument_def doc_def [symmetric] Let_def library_call_def)
    with assms show ?thesis
      by (simp add: well_formed_cong [of "snd (OpenDocument L buffer password s)" s])
  next
    case False
    then have docs: "g_documents (snd (OpenDocument L buffer password s)) =
        map_assign (g_nextHandle s) doc (g_documents s)"
      and cache: "g_pageCache (snd (OpenDocument L buffer password s)) = g_pageCache s"
      by (simp_all add: OpenDocument_def doc_def [symmetric] Let_def library_call_def)
    have found: "map_find k (map_assign (g_nextHandle s) doc (g_documents s)) \<noteq> None"
      if "map_find k (g_documents s) \<noteq> None" for k
      using that
      by (cases "k = g_nextHandle s") (simp_all add: map_find_assign_same map_find_assign_other)
    from assms False set_map_assign [of "g_nextHandle s" doc "g_documents s"]
    have "list_all (\<lambda>(h, d). d \<noteq> 0) (map_assign (g_nextHandle s) doc (g_documents s))"
      by (auto simp: well_formed_def list_all_iff)
    with assms found show ?thesis
      by (auto simp: well_formed_def docs cache ascending_assign list_all_iff)
  qed
qed

lemma well_formed_EnsurePdfiumInit: "well_formed (EnsurePdfiumInit s) = well_formed s"
  by (rule well_formed_cong) (simp_all add: EnsurePdfiumInit_def library_call_def)

lemma well_formed_CloseDocument:
  assumes "well_formed s"
  shows "well_formed (snd (CloseDocument h s))"
proof (cases "map_find h (g_documents s)")
  case None
  with assms show ?thesis
    by (simp add: CloseDocument_def)
next
  case (Some doc)
  show ?thesis
    by (rule well_formed_erase [OF assms, of _ h]) (simp_all add: CloseDocument_effect [OF Some])
qed

lemma well_formed_SaveDocument:
  assumes "well_formed s"
  shows "well_formed (snd (SaveDocument L h s))"
  using save_cache_change [of L h s]
proof
  assume "g_pageCache (snd (SaveDocument L h s)) = g_pageCache s"
  with assms show ?thesis
    by (simp add: well_formed_cong [OF g_documents_SaveDocument])
next
  assume "g_pageCache (snd (SaveDocument L h s)) = map_erase h (g_pageCache s)"
  with assms show ?thesis
    by (rule well_formed_erase) (simp add: g_documents_SaveDocument)
qed

lemma well_formed_Cleanup: "well_formed (Cleanup s)"
  by (simp add: well_formed_def Cleanup_def Let_def library_call_def ascending_def)

lemma well_formed_invoke:
  assumes "well_formed s"
  shows "well_formed (snd (invoke L c s))"
proof (cases c)
  case (Call f info)
  show ?thesis
  proof (cases f)
    case openDocument
    then show ?thesis
      using assms well_formed_OpenDocument [of "EnsurePdfiumInit s" L]
      by (simp add: Call OpenDocument_napi_def Let_def well_formed_EnsurePdfiumInit)
  next
    case closeDocument
    then show ?thesis
      using assms by (simp add: Call CloseDocument_napi_def snd_void_result well_formed_CloseDocument)
  next
    case getPageCount
    then show ?thesis
      using assms by (simp add: Call GetPageCount_napi_def GetPageCount_def split: prod.splits)
  next
    case saveDocument
    then show ?thesis
      using assms by (simp add: Call SaveDocument_napi_def well_formed_SaveDocument)
  next
    case renderPage
    then show ?thesis
      using assms
      by (simp add: Call RenderPage_napi_def
            well_formed_cong [OF g_documents_RenderPage render_cache_change]
            split: bool.splits js_value.splits)
  next
    case listPageObjects
    then show ?thesis
      using assms
      by (simp add: Call ListPageObjects_napi_def
            well_formed_cong [OF g_documents_ListPageObjects list_cache_change])
  next
    case editTextObject
    then show ?thesis
      using assms
      by (simp add: Call EditTextObject_napi_def snd_void_result
            well_formed_edit [OF assms EditTextObject_tables])
  next
    case replaceImageObject
    then show ?thesis
      using assms
      by (simp add: Call ReplaceImageObject_napi_def snd_void_result
            well_formed_edit [OF assms ReplaceImageObject_tables])
  next
    case replaceImageObjectBitmap
    then show ?thesis
      using assms
      by (simp add: Call ReplaceImageObjectBitmap_napi_def snd_void_result
            well_formed_edit [OF assms ReplaceImageObjectBitmap_tables])
  qed
next
  case Cleanup_hook
  then show ?thesis
    by (simp add: well_formed_Cleanup)
qed

text \<open>
  So every state reached from start-up is well formed, and a handle found in its
  registry stands for a document that is not null.
\<close>

lemma well_formed_run: "well_formed s \<Longrightarrow> well_formed (run L cs s)"
  unfolding run_def
  by (induction cs arbitrary: s) (simp_all add: well_formed_invoke)

lemma reachable_valid_handle:
  "map_find h (g_documents (run L cs initial)) = Some doc \<Longrightarrow> doc \<noteq> 0"
  by (rule well_formed_valid_handle [OF well_formed_run [OF well_formed_initial]])

section \<open>Rendering\<close>

text \<open>
  With the page acquired, a pixel width or height of zero or less ends \<^verbatim>\<open>RenderPage\<close> with
  an error: the page is released and no bitmap is created.
\<close>

lemma RenderPage_empty_bitmap:
  assumes "map_find h (g_documents s) = Some doc" "doc \<noteq> 0"
      and "0 \<le> i" "i < FPDF_GetPageCount L (calls s) doc" "\<not> double_le scale double_zero"
      and "AcquirePage L h doc i s = (pg, fromCache, s1)" "pg \<noteq> 0"
      and "double_to_int (double_add (double_mul
             (double_of_float (FPDF_GetPageWidthF L (calls s1) pg)) scale) double_half) \<le> 0 \<or>
           double_to_int (double_add (double_mul
             (double_of_float (FPDF_GetPageHeightF L (calls s1) pg)) scale) double_half) \<le> 0"
  shows "RenderPage L h i scale s =
           (Inl (JsError ''renderPage: resulting bitmap size is zero''),
            ReleasePage h i pg fromCache s1)"
  using assms by (auto simp: RenderPage_def RequireDocument_def Let_def)

text \<open>
  The copy loop writes four bytes per pixel, row by row, and reads the library's
  bitmap only inside the rows' pixels: two bitmaps that agree there, whatever their
  strides and whatever lies between their rows, are copied to the same bytes.
\<close>

lemma RenderPage_convert_length:
  "length (RenderPage_convert src stride width height) = 4 * nat width * nat height"
proof -
  have row: "length (concat (map (\<lambda>x. [f x, g x, p x, q x]) xs)) = 4 * length xs"
    for f g p q :: "int \<Rightarrow> byte" and xs
    by (induction xs) auto
  have rows: "length (concat (map (\<lambda>y. r y) ys)) = n * length ys"
    if "\<And>y. length (r y) = n" for r :: "int \<Rightarrow> byte list" and ys n
    using that by (induction ys) auto
  have "length (RenderPage_convert src stride width height) =
          (4 * length [0..width - 1]) * length [0..height - 1]"
    unfolding RenderPage_convert_def Let_def
    by (rule rows) (simp add: row)
  then show ?thesis
    by simp
qed

lemma RenderPage_convert_pixels_only:
  assumes "\<And>x y c. 0 \<le> y \<Longrightarrow> y < height \<Longrightarrow> 0 \<le> x \<Longrightarrow> x < width \<Longrightarrow> 0 \<le> c \<Longrightarrow> c < 4 \<Longrightarrow>
             src (y * stride + x * 4 + c) = src' (y * stride' + x * 4 + c)"
  shows "RenderPage_convert src stride width height =
         RenderPage_convert src' stride' width height"
  unfolding RenderPage_convert_def Let_def
proof (intro arg_cong [where f = concat] map_cong refl)
  fix y x
  assume "y \<in> set [0..height - 1]" "x \<in> set [0..width - 1]"
  then have range: "0 \<le> y" "y < height" "0 \<le> x" "x < width"
    by auto
  have "src (y * stride + x * 4 + c) = src' (y * stride' + x * 4 + c)" if "0 \<le> c" "c < 4" for c
    using assms range that by blast
  from this [of 0] this [of 1] this [of 2] this [of 3]
  show "[src (y * stride + x * 4 + 2), src (y * stride + x * 4 + 1),
         src (y * stride + x * 4 + 0), src (y * stride + x * 4 + 3)] =
        [src' (y * stride' + x * 4 + 2), src' (y * stride' + x * 4 + 1),
         src' (y * stride' + x * 4 + 0), src' (y * stride' + x * 4 + 3)]"
    by simp
qed

section \<open>The claims\<close>

text \<open>
  C1. \<^verbatim>\<open>FlushAndCloseCachedPages(h)\<close> calls \<^verbatim>\<open>FPDFPage_GenerateContent\<close> on exactly the
  cached entries of \<open>h\<close> whose dirty flag is set, once each and whatever the earlier
  calls returned; it calls \<^verbatim>\<open>FPDF_ClosePage\<close> on every cached entry of \<open>h\<close>, and makes
  no other library call; afterwards the cache has no entry for \<open>h\<close>, and the entries
  of other documents and the registry are as before; it returns true if and only if
  every regeneration it made succeeded.
\<close>

theorem FlushAndCloseCachedPages_contract:
  assumes "FlushAndCloseCachedPages L h s = (r, s')"
  shows "calls s' = calls s @ new_calls s s' \<and>
         regenerated (new_calls s s') = map page (filter dirty (cached_pages h s)) \<and>
         closed_pages (new_calls s s') = map page (cached_pages h s) \<and>
         list_all is_flush_call (new_calls s s') \<and>
         map_find h (g_pageCache s') = None \<and>
         cached_pages h s' = [] \<and>
         (\<forall>h'. h' \<noteq> h \<longrightarrow> map_find h' (g_pageCache s') = map_find h' (g_pageCache s)) \<and>
         g_documents s' = g_documents s \<and>
         r = (\<forall>p ok. EvGenerateContent p ok \<in> set (new_calls s s') \<longrightarrow> ok)"
proof -
  from FlushAndCloseCachedPages_effect [OF assms] obtain evs where
    s': "s' = (library_call evs s)\<lparr>g_pageCache := map_erase h (g_pageCache s)\<rparr>" and
    evs: "regenerated evs = map page (filter dirty (cached_pages h s))"
      "closed_pages evs = map page (cached_pages h s)"
      "list_all is_flush_call evs"
      "r = (failed_regenerations evs = [])"
    by blast
  have calls: "calls s' = calls s @ evs"
    by (simp add: s' library_call_def)
  then have new: "new_calls s s' = evs"
    by (rule new_calls_append)
  have cache: "g_pageCache s' = map_erase h (g_pageCache s)"
    by (simp add: s')
  have "map_find h (g_pageCache s') = None"
    by (simp add: cache map_find_erase_same)
  moreover from this have "cached_pages h s' = []"
    by (simp add: cached_pages_def)
  moreover have "\<forall>h'. h' \<noteq> h \<longrightarrow> map_find h' (g_pageCache s') = map_find h' (g_pageCache s)"
    by (simp add: cache map_find_erase_other)
  moreover have "g_documents s' = g_documents s"
    by (simp add: s' library_call_def)
  moreover have "r = (\<forall>p ok. EvGenerateContent p ok \<in> set (new_calls s s') \<longrightarrow> ok)"
    by (simp only: new evs(4) failed_regenerations_set)
  ultimately show ?thesis
    using calls evs(1-3) by (simp add: new)
qed

theorem FlushAndCloseCachedPages_contract_witness:
  "FlushAndCloseCachedPages (demo_pdfium False True) 1 (demo_edited False True) =
     (False, demo_flushed False True) \<and>
   regenerated (new_calls (demo_edited False True) (demo_flushed False True)) = [204, 202] \<and>
   closed_pages (new_calls (demo_edited False True) (demo_flushed False True)) = [204, 202] \<and>
   map_find 1 (g_pageCache (demo_flushed False True)) = None"
  using FlushAndCloseCachedPages_contract [OF demo_flush_run [of False True]]
  by (simp add: demo_flush_run demo_edited_pages)

text \<open>
  C4. \<^verbatim>\<open>AcquirePage(h, doc, i)\<close> right after \<^verbatim>\<open>CachePageDirty(h, i, r)\<close> returns \<open>r\<close> with
  \<^verbatim>\<open>fromCache = true\<close>, and loads nothing: the state is left as it was.
\<close>

theorem AcquirePage_after_CachePageDirty:
  "AcquirePage L h doc i (CachePageDirty h i r s) = (r, True, CachePageDirty h i r s)"
  by (simp add: AcquirePage_def g_pageCache_CachePageDirty map_find_assign_same)

theorem AcquirePage_after_CachePageDirty_witness:
  "AcquirePage (demo_pdfium True True) 1 101 0 (CachePageDirty 1 0 204 (demo_opened True True)) =
     (204, True,
      \<lparr>g_documents = [(1, 101)], g_pageCache = [(1, [(0, \<lparr>page = 204, dirty = True\<rparr>)])],
       g_nextHandle = 2, g_initialized = True,
       calls = [EvInitLibrary, EvLoadMemDocument [37] None 101]\<rparr>)"
  using AcquirePage_after_CachePageDirty [of "demo_pdfium True True" 1 101 0 204
    "demo_opened True True"]
  by (simp add: demo_opened_value CachePageDirty_def)


text \<open>
  C2. For an open handle, \<^verbatim>\<open>SaveDocument\<close> runs \<^verbatim>\<open>FlushAndCloseCachedPages\<close> first: the
  history after the save is the history after the flush, followed by one call of
  \<^verbatim>\<open>FPDF_SaveAsCopy\<close> when the flush returned true and by nothing when it returned
  false; the flush itself never serializes. When the flush returns false the save
  throws the error naming \<^verbatim>\<open>FPDFPage_GenerateContent\<close> and ends in the state the flush
  left, with no serialization call made.
\<close>

theorem SaveDocument_flushes_before_serializing:
  assumes "map_find h (g_documents s) = Some doc" "doc \<noteq> 0"
      and "FlushAndCloseCachedPages L h s = (flushed, s1)"
      and "SaveDocument L h s = (res, s')"
  shows "calls s1 = calls s @ new_calls s s1 \<and>
         calls s' = calls s1 @ new_calls s1 s' \<and>
         serialized (new_calls s s1) = [] \<and>
         g_pageCache s' = g_pageCache s1 \<and>
         (flushed \<longrightarrow>
            new_calls s1 s' = [EvSaveAsCopy doc (fst (FPDF_SaveAsCopy L (calls s1) doc))]) \<and>
         (\<not> flushed \<longrightarrow>
            res = Inl (JsError
                    ''saveDocument: FPDFPage_GenerateContent failed for a dirty page'') \<and>
            s' = s1 \<and> serialized (new_calls s s') = [])"
proof -
  from FlushAndCloseCachedPages_effect [OF assms(3)] obtain evs where
    s1: "s1 = (library_call evs s)\<lparr>g_pageCache := map_erase h (g_pageCache s)\<rparr>" and
    evs: "list_all is_flush_call evs"
    by blast
  have c1: "calls s1 = calls s @ evs"
    by (simp add: s1 library_call_def)
  then have new1: "new_calls s s1 = evs"
    by (rule new_calls_append)
  have no_save: "serialized evs = []"
    by (rule serialized_flush_calls [OF evs])
  note save = SaveDocument_effect [OF assms(1-3), unfolded assms(4)]
  show ?thesis
  proof (cases flushed)
    case True
    define ok where "ok = fst (FPDF_SaveAsCopy L (calls s1) doc)"
    from save True have s': "s' = library_call [EvSaveAsCopy doc ok] s1"
      by (simp add: ok_def)
    then have c2: "calls s' = calls s1 @ [EvSaveAsCopy doc ok]"
      by (simp add: library_call_def)
    then have new2: "new_calls s1 s' = [EvSaveAsCopy doc ok]"
      by (rule new_calls_append)
    have "g_pageCache s' = g_pageCache s1"
      by (simp add: s' library_call_def)
    with True show ?thesis
      unfolding new1 new2 by (simp add: c1 c2 no_save ok_def)
  next
    case False
    with save have res: "res = Inl (JsError
        ''saveDocument: FPDFPage_GenerateContent failed for a dirty page'')" and s': "s' = s1"
      by simp_all
    have new2: "new_calls s1 s' = []"
      by (simp add: s' new_calls_same)
    have new3: "new_calls s s' = evs"
      by (simp add: s' new1)
    from False show ?thesis
      unfolding new1 new2 new3 by (simp add: c1 no_save res s')
  qed
qed

theorem SaveDocument_flushes_before_serializing_witness:
  "SaveDocument (demo_pdfium False True) 1 (demo_edited False True) =
     (Inl (JsError ''saveDocument: FPDFPage_GenerateContent failed for a dirty page''),
      demo_flushed False True) \<and>
   serialized (new_calls (demo_edited False True) (demo_flushed False True)) = [] \<and>
   SaveDocument (demo_pdfium True True) 1 (demo_edited True True) =
     (Inr (Buffer [0x25, 0x50, 0x44, 0x46]), demo_saved True True) \<and>
   new_calls (demo_flushed True True) (demo_saved True True) = [EvSaveAsCopy 101 True]"
proof -
  have failing: "SaveDocument (demo_pdfium False True) 1 (demo_edited False True) =
      (Inl (JsError ''saveDocument: FPDFPage_GenerateContent failed for a dirty page''),
       demo_saved False True)"
    by (simp add: demo_save_run)
  have passing: "SaveDocument (demo_pdfium True True) 1 (demo_edited True True) =
      (Inr (Buffer [0x25, 0x50, 0x44, 0x46]), demo_saved True True)"
    by (simp add: demo_save_run)
  from SaveDocument_flushes_before_serializing
         [OF demo_edited_valid _ demo_flush_run [of False True] failing]
       SaveDocument_flushes_before_serializing
         [OF demo_edited_valid _ demo_flush_run [of True True] passing]
  show ?thesis
    using failing passing by (simp add: demo_SaveAsCopy)
qed







text \<open>
  C5. Let an edit operation on an open handle have acquired its page \<open>pg\<close> (from the
  cache or by loading it) and then fail. Then the cache and the registry are as before
  the operation; a page loaded for the operation is closed, once, as the last library
  call, and a page taken from the cache is not closed; the operation throws. For
  \<^verbatim>\<open>ReplaceImageObjectBitmap\<close> this is the case once its buffer check, which comes before
  the page is acquired, has passed. An object id below zero or not below the page's
  object count is answered with a \<^verbatim>\<open>RangeError\<close> that names the bounds
  \<^verbatim>\<open>[0, count - 1]\<close>, and apart from releasing the page no library call is made.
\<close>

theorem failed_edit_releases_page:
  assumes "map_find h (g_documents s) = Some doc" "doc \<noteq> 0"
      and "AcquirePage L h doc i s = (pg, fromCache, s1)" "pg \<noteq> 0"
  shows "(EditTextObject L h i objectId newText s = (Inl e, s') \<longrightarrow>
            released_uncached s s1 s' pg fromCache) \<and>
         (ReplaceImageObject L h i objectId imageData fmt s = (Inl e, s') \<longrightarrow>
            released_uncached s s1 s' pg fromCache) \<and>
         (\<not> int32 (int (length bgraData)) < int32 (width * height * 4) \<longrightarrow>
          ReplaceImageObjectBitmap L h i objectId bgraData width height s = (Inl e, s') \<longrightarrow>
            released_uncached s s1 s' pg fromCache) \<and>
         (objectId < 0 \<or> objectId \<ge> FPDFPage_CountObjects L (calls s1) pg \<longrightarrow>
            EditTextObject L h i objectId newText s =
              (Inl (JsRangeError
                 (''editTextObject: objectId '' @ to_string objectId @ '' out of range [0, '' @
                  to_string (FPDFPage_CountObjects L (calls s1) pg - 1) @ '']'')),
               ReleasePage h i pg fromCache s1) \<and>
            ReplaceImageObject L h i objectId imageData fmt s =
              (Inl (JsRangeError
                 (''replaceImageObject: objectId '' @ to_string objectId @
                  '' out of range [0, '' @
                  to_string (FPDFPage_CountObjects L (calls s1) pg - 1) @ '']'')),
               ReleasePage h i pg fromCache s1) \<and>
            (\<not> int32 (int (length bgraData)) < int32 (width * height * 4) \<longrightarrow>
             ReplaceImageObjectBitmap L h i objectId bgraData width height s =
               (Inl (JsRangeError
                  (''replaceImageObjectBitmap: objectId '' @ to_string objectId @
                   '' out of range [0, '' @
                   to_string (FPDFPage_CountObjects L (calls s1) pg - 1) @ '']'')),
                ReleasePage h i pg fromCache s1)) \<and>
            new_calls s1 (ReleasePage h i pg fromCache s1) =
              (if fromCache then [] else [EvClosePage pg]))"
proof -
  have release: "new_calls s1 (ReleasePage h i pg fromCache s1) =
                   (if fromCache then [] else [EvClosePage pg])"
    by (simp add: ReleasePage_calls library_call_def new_calls_def)
  have text_edit: "EditTextObject L h i objectId newText s = (Inl e, s') \<longrightarrow>
      released_uncached s s1 s' pg fromCache"
    using EditTextObject_failure [OF assms] by blast
  have image_edit: "ReplaceImageObject L h i objectId imageData fmt s = (Inl e, s') \<longrightarrow>
      released_uncached s s1 s' pg fromCache"
    using ReplaceImageObject_failure [OF assms] by blast
  have bitmap_edit: "\<not> int32 (int (length bgraData)) < int32 (width * height * 4) \<longrightarrow>
      ReplaceImageObjectBitmap L h i objectId bgraData width height s = (Inl e, s') \<longrightarrow>
      released_uncached s s1 s' pg fromCache"
    using ReplaceImageObjectBitmap_failure [OF assms] by blast
  note range = objectId_out_of_range [OF assms, of objectId]
  show ?thesis
    by (intro conjI impI text_edit [rule_format] image_edit [rule_format]
          bitmap_edit [rule_format] range release)
qed

theorem failed_edit_releases_page_witness:
  "AcquirePage (demo_pdfium True True) 1 101 0 (demo_opened True True) =
     (202, False, library_call [EvLoadPage 101 0 202] (demo_opened True True)) \<and>
   EditTextObject (demo_pdfium True True) 1 0 5 [0x48] (demo_opened True True) =
     (Inl (JsRangeError ''editTextObject: objectId 5 out of range [0, 1]''),
      library_call [EvLoadPage 101 0 202, EvClosePage 202] (demo_opened True True)) \<and>
   released_uncached (demo_opened True True)
     (library_call [EvLoadPage 101 0 202] (demo_opened True True))
     (library_call [EvLoadPage 101 0 202, EvClosePage 202] (demo_opened True True)) 202 False \<and>
   g_pageCache (library_call [EvLoadPage 101 0 202, EvClosePage 202] (demo_opened True True)) = []"
proof -
  let ?L = "demo_pdfium True True"
  let ?s = "demo_opened True True"
  let ?s1 = "library_call [EvLoadPage 101 0 202] ?s"
  let ?s' = "library_call [EvLoadPage 101 0 202, EvClosePage 202] ?s"
  note acq = demo_opened_acquire [of True True]
  note inst = failed_edit_releases_page [OF demo_opened_valid _ acq,
      where objectId = 5 and newText = "[0x48]" and s' = "?s'"
        and e = "JsRangeError ''editTextObject: objectId 5 out of range [0, 1]''"]
  have release: "ReleasePage 1 0 202 False ?s1 = ?s'"
    by (simp add: ReleasePage_def library_call_def)
  from inst have run: "EditTextObject ?L 1 0 5 [0x48] ?s =
      (Inl (JsRangeError ''editTextObject: objectId 5 out of range [0, 1]''), ?s')"
    by (simp add: demo_CountObjects to_string_5 to_string_1 release)
  with inst have "released_uncached ?s ?s1 ?s' 202 False"
    by simp
  moreover have "g_pageCache ?s' = []"
    by (simp add: library_call_def demo_opened_value)
  ultimately show ?thesis
    using acq run by simp
qed

text \<open>
  C8. On an open handle, with the page acquired, an object id within the page's object
  count and an image object at that id, \<^verbatim>\<open>ReplaceImageObject\<close> with a format string
  other than \<^verbatim>\<open>"jpeg"\<close> throws the unsupported-format error, the code's error for this
  case, and leaves the whole cache as it was: no entry is inserted and none is changed.
  It only releases the page; the image is not touched.
\<close>

theorem ReplaceImageObject_unsupported_format_fails:
  assumes "map_find h (g_documents s) = Some doc" "doc \<noteq> 0"
      and "AcquirePage L h doc i s = (pg, fromCache, s1)" "pg \<noteq> 0"
      and "0 \<le> objectId" "objectId < FPDFPage_CountObjects L (calls s1) pg"
      and "FPDFPageObj_GetType L (calls s1) (FPDFPage_GetObject L (calls s1) pg objectId) =
           FPDF_PAGEOBJ_IMAGE"
      and "fmt \<noteq> ''jpeg''"
      and "ReplaceImageObject L h i objectId imageData fmt s = (res, s')"
  shows "res = Inl (JsError
           (''replaceImageObject: only '' @ [CHR 0x27] @ ''jpeg'' @ [CHR 0x27] @
            '' format is currently supported. '' @
            ''Convert other formats to JPEG before calling this function.'')) \<and>
         g_pageCache s' = g_pageCache s \<and>
         cache_entry h i s' = cache_entry h i s \<and>
         g_documents s' = g_documents s \<and>
         s' = ReleasePage h i pg fromCache s1 \<and>
         new_calls s1 s' = (if fromCache then [] else [EvClosePage pg])"
proof -
  from ReplaceImageObject_unsupported_format [OF assms(1-8), of imageData] assms(9)
  have res: "res = Inl (JsError
           (''replaceImageObject: only '' @ [CHR 0x27] @ ''jpeg'' @ [CHR 0x27] @
            '' format is currently supported. '' @
            ''Convert other formats to JPEG before calling this function.''))"
    and s': "s' = ReleasePage h i pg fromCache s1"
    by simp_all
  have s1: "s1 = library_call (if fromCache then [] else [EvLoadPage doc i pg]) s"
    by (rule AcquirePage_cases [OF assms(3)])
  have cache: "g_pageCache s' = g_pageCache s"
    by (simp add: s' s1 ReleasePage_calls library_call_def)
  have "g_documents s' = g_documents s"
    by (simp add: s' s1 ReleasePage_calls library_call_def)
  moreover have "new_calls s1 s' = (if fromCache then [] else [EvClosePage pg])"
    by (simp add: s' ReleasePage_calls library_call_def new_calls_def)
  ultimately show ?thesis
    using res s' cache cache_entry_cong [OF cache] by simp
qed

theorem ReplaceImageObject_unsupported_format_fails_witness:
  "ReplaceImageObject (demo_pdfium True True) 1 0 1 [0x89, 0x50] ''png'' (demo_edited True True) =
     (Inl (JsError
        (''replaceImageObject: only '' @ [CHR 0x27] @ ''jpeg'' @ [CHR 0x27] @
         '' format is currently supported. '' @
         ''Convert other formats to JPEG before calling this function.'')),
      demo_edited True True) \<and>
   cache_entry 1 0 (demo_edited True True) = Some \<lparr>page = 204, dirty = True\<rparr> \<and>
   new_calls (demo_edited True True) (demo_edited True True) = []"
proof -
  let ?L = "demo_pdfium True True"
  let ?s = "demo_edited True True"
  have run: "ReplaceImageObject ?L 1 0 1 [0x89, 0x50] ''png'' ?s =
               (fst (ReplaceImageObject ?L 1 0 1 [0x89, 0x50] ''png'' ?s),
                snd (ReplaceImageObject ?L 1 0 1 [0x89, 0x50] ''png'' ?s))"
    by simp
  have image: "FPDFPageObj_GetType ?L (calls ?s) (FPDFPage_GetObject ?L (calls ?s) 204 1) =
                 FPDF_PAGEOBJ_IMAGE"
    by (simp add: demo_GetType)
  have count: "1 < FPDFPage_CountObjects ?L (calls ?s) 204"
    by (simp add: demo_CountObjects)
  have release: "ReleasePage 1 0 204 True ?s = ?s"
    by (simp add: ReleasePage_def)
  have entry: "cache_entry 1 0 ?s = Some \<lparr>page = 204, dirty = True\<rparr>"
    by (simp add: cache_entry_def demo_edited_value)
  from ReplaceImageObject_unsupported_format_fails
         [OF demo_edited_valid _ demo_edited_acquire _ _ count image _ run]
  have "fst (ReplaceImageObject ?L 1 0 1 [0x89, 0x50] ''png'' ?s) =
          Inl (JsError
            (''replaceImageObject: only '' @ [CHR 0x27] @ ''jpeg'' @ [CHR 0x27] @
             '' format is currently supported. '' @
             ''Convert other formats to JPEG before calling this function.''))"
    and "snd (ReplaceImageObject ?L 1 0 1 [0x89, 0x50] ''png'' ?s) = ?s"
    by (simp_all add: release)
  then show ?thesis
    using entry by (simp add: prod_eq_iff new_calls_same)
qed


text \<open>
  C10. Every entry of the page cache has its dirty flag set. This holds at start-up
  and is kept by every exported function, whatever its arguments, and by the cleanup
  hook, so it holds after any sequence of calls. \<^verbatim>\<open>CachePageDirty\<close> keeps it, and it is
  the only way a call adds to the cache: each call leaves the cache as it was, erases
  the entries of one document, empties it, or applies \<^verbatim>\<open>CachePageDirty\<close>. So a page the
  cache holds is held with the flag set, a successful edit of an open document leaves
  its page in the cache with the flag set, and \<^verbatim>\<open>FlushAndCloseCachedPages\<close> finds the
  flag set at every entry it visits and regenerates each of them.
\<close>

theorem cache_entries_all_dirty:
  "all_dirty initial \<and>
   (all_dirty s \<longrightarrow> all_dirty (snd (invoke L c s))) \<and>
   all_dirty (run L cs initial) \<and>
   (all_dirty s \<longrightarrow> all_dirty (CachePageDirty h i pg s)) \<and>
   cache_step s (snd (invoke L c s)) \<and>
   (all_dirty s \<longrightarrow> cache_entry h i s = Some cp \<longrightarrow> dirty cp) \<and>
   (map_find h (g_documents s) = Some doc \<longrightarrow> doc \<noteq> 0 \<longrightarrow>
    EditTextObject L h i objectId newText s = (Inr u, s') \<or>
    ReplaceImageObject L h i objectId imageData fmt s = (Inr u, s') \<or>
    ReplaceImageObjectBitmap L h i objectId bgraData width height s = (Inr u, s') \<longrightarrow>
      (\<exists>pg'. cache_entry h i s' = Some \<lparr>page = pg', dirty = True\<rparr>)) \<and>
   (all_dirty s \<longrightarrow>
      filter dirty (cached_pages h s) = cached_pages h s \<and>
      regenerated (new_calls s (snd (FlushAndCloseCachedPages L h s))) =
        map page (cached_pages h s))"
proof -
  have start: "all_dirty initial"
    by (simp add: all_dirty_def initial_def)
  have flush: "regenerated (new_calls s (snd (FlushAndCloseCachedPages L h s))) =
                 map page (cached_pages h s)" if "all_dirty s"
  proof -
    obtain r t where run: "FlushAndCloseCachedPages L h s = (r, t)"
      by (cases "FlushAndCloseCachedPages L h s")
    from FlushAndCloseCachedPages_effect [OF run] obtain evs where
      t: "t = (library_call evs s)\<lparr>g_pageCache := map_erase h (g_pageCache s)\<rparr>" and
      evs: "regenerated evs = map page (filter dirty (cached_pages h s))"
      by blast
    have "new_calls s t = evs"
      by (rule new_calls_append) (simp add: t library_call_def)
    with evs show ?thesis
      by (simp add: run all_dirty_cached_pages [OF that])
  qed
  have edited: "\<exists>pg'. cache_entry h i s' = Some \<lparr>page = pg', dirty = True\<rparr>"
    if "map_find h (g_documents s) = Some doc" "doc \<noteq> 0"
      and "EditTextObject L h i objectId newText s = (Inr u, s') \<or>
           ReplaceImageObject L h i objectId imageData fmt s = (Inr u, s') \<or>
           ReplaceImageObjectBitmap L h i objectId bgraData width height s = (Inr u, s')"
    using that(3) by (auto dest: edit_success_cached [OF that(1,2)])
  show ?thesis
    by (intro conjI impI start all_dirty_invoke all_dirty_run all_dirty_CachePageDirty
          invoke_cache_step all_dirty_cached_pages flush)
       (assumption | erule (1) all_dirty_entry | erule (2) edited)+
qed

theorem cache_entries_all_dirty_witness:
  "all_dirty (demo_opened True True) \<and>
   EditTextObject (demo_pdfium True True) 1 0 0 [0x48] (demo_opened True True) =
     (Inr (),
      CachePageDirty 1 0 202
        (library_call [EvLoadPage 101 0 202, EvSetText 202 300 [0x48] True]
           (demo_opened True True))) \<and>
   cache_entry 1 0
     (CachePageDirty 1 0 202
        (library_call [EvLoadPage 101 0 202, EvSetText 202 300 [0x48] True]
           (demo_opened True True))) = Some \<lparr>page = 202, dirty = True\<rparr> \<and>
   all_dirty (demo_edited True True) \<and>
   cache_entry 1 1 (demo_edited True True) = Some \<lparr>page = 202, dirty = True\<rparr> \<and>
   dirty \<lparr>page = 202, dirty = True\<rparr> \<and>
   regenerated (new_calls (demo_edited True True) (demo_flushed True True)) = [204, 202]"
proof -
  let ?L = "demo_pdfium True True"
  let ?s = "demo_opened True True"
  let ?s' = "CachePageDirty 1 0 202
        (library_call [EvLoadPage 101 0 202, EvSetText 202 300 [0x48] True] ?s)"
  have opened: "all_dirty ?s"
    by (simp add: all_dirty_def demo_opened_value)
  have run: "EditTextObject ?L 1 0 0 [0x48] ?s = (Inr (), ?s')"
    by (simp add: EditTextObject_def RequireDocument_def demo_opened_valid demo_opened_acquire
          demo_CountObjects demo_GetType [where i = 0, simplified] Let_def library_call_def
          c_str_def)
       (simp add: demo_pdfium_def)
  have entry: "cache_entry 1 1 (demo_edited True True) = Some \<lparr>page = 202, dirty = True\<rparr>"
    by (simp add: cache_entry_def demo_edited_value)
  have flushed: "snd (FlushAndCloseCachedPages ?L 1 (demo_edited True True)) =
                   demo_flushed True True"
    by (simp add: demo_flush_run)
  note inv = cache_entries_all_dirty
    [where L = ?L and cs = "[Call openDocument [Buffer [0x25]],
        Call editTextObject [Number 1, Number 1, Number 0, String [0x48, 0x69]],
        Call replaceImageObject
          [Number 1, Number 0, Number 1, Buffer [0xFF, 0xD8],
           String [0x6A, 0x70, 0x65, 0x67]]]"
      and s = "demo_edited True True" and h = 1 and i = 1
      and cp = "\<lparr>page = 202, dirty = True\<rparr>"]
  note step = cache_entries_all_dirty
    [where L = ?L and s = ?s and h = 1 and i = 0 and doc = 101 and objectId = 0
      and newText = "[0x48]" and u = "()" and s' = "?s'"]
  from inv have edited: "all_dirty (demo_edited True True)"
    by (simp add: demo_edited_run)
  with inv entry have "dirty \<lparr>page = 202, dirty = True\<rparr>"
    and "regenerated (new_calls (demo_edited True True) (demo_flushed True True)) = [204, 202]"
    by (simp_all add: flushed demo_edited_pages)
  moreover from step opened run
  have "\<exists>pg'. cache_entry 1 0 ?s' = Some \<lparr>page = pg', dirty = True\<rparr>"
    by (simp add: demo_opened_valid)
  then have "cache_entry 1 0 ?s' = Some \<lparr>page = 202, dirty = True\<rparr>"
    by (simp add: cache_entry_CachePageDirty)
  ultimately show ?thesis
    using opened run edited entry by simp
qed

end
